theory Spec2Isabelle
  imports Complex_Main
begin

section \<open>The Python interface of pocketfft: \<^verbatim>\<open>scipy/fft/_pocketfft/pypocketfft.cxx\<close>\<close>

text \<open>
  The front end resolves the axes, picks the element type, resolves the output array,
  computes the normalisation factor and calls a transform kernel of
  \<^verbatim>\<open>pocketfft_hdronly.h\<close>. The kernels are parameters of the model (black boxes that
  take the call's arguments and give the new contents of the output, or fail). Values of
  the C++ element types \<^verbatim>\<open>T\<close> and \<^verbatim>\<open>complex<T>\<close> are modelled as exact
  \<^typ>\<open>real\<close> and \<^typ>\<open>complex\<close> numbers: rounding is abstracted. A \<^verbatim>\<open>size_t\<close> is a
  \<^typ>\<open>nat\<close> below \<open>2 ^ 64\<close>, with the wrap-around written out where the code computes
  one; a \<^verbatim>\<open>ptrdiff_t\<close> and an \<^verbatim>\<open>int\<close> are an \<^typ>\<open>int\<close>.
\<close>

subsection \<open>Element types, arrays, errors\<close>

datatype precision = T_double | T_float | T_ldbl

text \<open>
  The element type of an array. \<open>OtherKind c\<close> is any element type that is none of the
  six the module knows; \<open>c\<close> tells whether its kind character is \<^verbatim>\<open>'c'\<close>.
\<close>

datatype dtype = Real precision | Cplx precision | OtherKind bool

abbreviation c64 :: dtype where "c64 \<equiv> Cplx T_float"
abbreviation c128 :: dtype where "c128 \<equiv> Cplx T_double"
abbreviation clong :: dtype where "clong \<equiv> Cplx T_ldbl"
abbreviation f32 :: dtype where "f32 \<equiv> Real T_float"
abbreviation f64 :: dtype where "f64 \<equiv> Real T_double"
abbreviation flong :: dtype where "flong \<equiv> Real T_ldbl"

fun kind_is_c :: "dtype \<Rightarrow> bool" where
  "kind_is_c (Real _) = False"
| "kind_is_c (Cplx _) = True"
| "kind_is_c (OtherKind c) = c"

text \<open>
  The memory of an array, read and written at byte offsets from its data pointer
  (\<^verbatim>\<open>ndarr::operator[]\<close> takes the byte offset), and the array: its element type, the
  length of each axis, the stride of each axis in bytes, and its memory. A NumPy array
  has one stride per axis, and its lengths are below \<open>2 ^ 63\<close>.
\<close>

datatype buffer = RBuf "int \<Rightarrow> real" | CBuf "int \<Rightarrow> complex"

record pyarray =
  a_dtype :: dtype
  a_shape :: "nat list"
  a_strides :: "int list"
  a_data :: buffer

definition ndim :: "pyarray \<Rightarrow> nat" where
  "ndim arr = length (a_shape arr)"

datatype error =
    BadAxesArgument
  | AxesExceedDimensionality
  | UnsupportedDataType
  | InvalidInorm
  | UnexpectedOutputType
  | BadLastsize
  | IteratorCountMismatch
  | CastError
  | KernelError string
  | UndefinedBehaviour

text \<open>
  \<open>BadAxesArgument\<close> is \<^verbatim>\<open>runtime_error("bad axes argument")\<close>,
  \<open>AxesExceedDimensionality\<close> is
  \<^verbatim>\<open>invalid_argument("axes exceeds dimensionality of output")\<close>,
  \<open>UnsupportedDataType\<close> is \<^verbatim>\<open>runtime_error("unsupported data type")\<close>,
  \<open>InvalidInorm\<close> is \<^verbatim>\<open>invalid_argument("invalid value for inorm (must be 0, 1, or 2)")\<close>,
  \<open>UnexpectedOutputType\<close> is \<^verbatim>\<open>runtime_error("unexpected data type for output array")\<close>,
  \<open>BadLastsize\<close> is \<^verbatim>\<open>runtime_error("bad lastsize")\<close>, \<open>IteratorCountMismatch\<close> is the
  \<^verbatim>\<open>runtime_error\<close> of \<^verbatim>\<open>complex2hartley\<close>, \<open>CastError\<close> is pybind11's cast error,
  \<open>KernelError\<close> is an exception of a kernel, and \<open>UndefinedBehaviour\<close> stands for a step
  whose behaviour C++ leaves undefined (\<^verbatim>\<open>back()\<close> of an empty vector, an index out of
  range).
\<close>

definition size_t :: "int \<Rightarrow> nat" where
  "size_t i = nat (i mod 2 ^ 64)"

definition copy_shape :: "pyarray \<Rightarrow> nat list" where
  "copy_shape arr = map (\<lambda>i. a_shape arr ! i) [0..<ndim arr]"

definition copy_strides :: "pyarray \<Rightarrow> int list" where
  "copy_strides arr = map (\<lambda>i. a_strides arr ! i) [0..<ndim arr]"

text \<open>\<^verbatim>\<open>axes.back()\<close>: undefined on an empty vector.\<close>

definition vec_back :: "nat list \<Rightarrow> error + nat" where
  "vec_back axes = (if axes = [] then Inl UndefinedBehaviour else Inr (last axes))"

subsection \<open>\<^verbatim>\<open>makeaxes\<close>\<close>

text \<open>
  The \<^verbatim>\<open>axes\<close> object is \<open>None\<close> or a sequence of Python integers.
  \<^verbatim>\<open>axes.cast<std::vector<ptrdiff_t>>()\<close> fails on an integer outside the range of
  \<^verbatim>\<open>ptrdiff_t\<close>.
\<close>

definition is_ptrdiff :: "int \<Rightarrow> bool" where
  "is_ptrdiff x = (- (2 ^ 63) \<le> x \<and> x < 2 ^ 63)"

definition cast_vector_ptrdiff :: "int list \<Rightarrow> error + int list" where
  "cast_vector_ptrdiff xs = (if list_all is_ptrdiff xs then Inr xs else Inl CastError)"

text \<open>The loop \<^verbatim>\<open>for (auto& sz: tmp)\<close> of \<^verbatim>\<open>makeaxes\<close>, with \<open>nd\<close> the rank.\<close>

definition add_ndim :: "int \<Rightarrow> int \<Rightarrow> int" where
  "add_ndim nd sz = (if sz < 0 then sz + nd else sz)"

fun normalize_axes :: "int \<Rightarrow> int list \<Rightarrow> error + nat list" where
  "normalize_axes nd [] = Inr []"
| "normalize_axes nd (sz # rest) =
     (let sz' = add_ndim nd sz in
      if sz' \<ge> nd \<or> sz' < 0 then Inl AxesExceedDimensionality
      else (case normalize_axes nd rest of
              Inl e \<Rightarrow> Inl e
            | Inr res \<Rightarrow> Inr (nat sz' # res)))"

definition makeaxes :: "pyarray \<Rightarrow> int list option \<Rightarrow> error + nat list" where
  "makeaxes arr axes =
     (case axes of
        None \<Rightarrow> Inr (map (\<lambda>i. i) [0..<ndim arr])
      | Some xs \<Rightarrow>
          (case cast_vector_ptrdiff xs of
             Inl e \<Rightarrow> Inl e
           | Inr tmp \<Rightarrow>
               if length tmp > ndim arr \<or> length tmp = 0 then Inl BadAxesArgument
               else normalize_axes (int (ndim arr)) tmp))"

subsection \<open>\<^verbatim>\<open>norm_fct\<close>\<close>

text \<open>
  A value of the floating type \<^verbatim>\<open>T\<close>: a real number, or the infinity that the division
  \<^verbatim>\<open>1/ldbl_t(N)\<close> gives for \<open>N = 0\<close>.
\<close>

datatype fval = Finite real | PlusInfinity

definition reciprocal :: "real \<Rightarrow> fval" where
  "reciprocal x = (if x = 0 then PlusInfinity else Finite (1 / x))"

definition norm_fct :: "int \<Rightarrow> nat \<Rightarrow> error + fval" where
  "norm_fct inorm N =
     (if inorm = 0 then Inr (Finite 1)
      else if inorm = 2 then Inr (reciprocal (real N))
      else if inorm = 1 then Inr (reciprocal (sqrt (real N)))
      else Inl InvalidInorm)"

text \<open>
  The loop \<^verbatim>\<open>for (auto a: axes) N *= shape[a]\<close>, in \<^verbatim>\<open>size_t\<close> arithmetic; \<open>N\<close> is the
  product so far.
\<close>

fun axes_product :: "nat list \<Rightarrow> nat list \<Rightarrow> nat \<Rightarrow> error + nat" where
  "axes_product shp [] N = Inr N"
| "axes_product shp (a # axes) N =
     (if a < length shp then axes_product shp axes (size_t (int N * int (shp ! a)))
      else Inl UndefinedBehaviour)"

definition norm_fct_shape :: "int \<Rightarrow> nat list \<Rightarrow> nat list \<Rightarrow> error + fval" where
  "norm_fct_shape inorm shp axes =
     (if inorm = 0 then Inr (Finite 1)
      else (case axes_product shp axes 1 of
              Inl e \<Rightarrow> Inl e
            | Inr N \<Rightarrow> norm_fct inorm N))"

subsection \<open>\<^verbatim>\<open>prepare_output\<close>\<close>

definition itemsize :: "dtype \<Rightarrow> nat" where
  "itemsize t =
     (case t of
        Real T_float \<Rightarrow> 4 | Real T_double \<Rightarrow> 8 | Real T_ldbl \<Rightarrow> 16
      | Cplx T_float \<Rightarrow> 8 | Cplx T_double \<Rightarrow> 16 | Cplx T_ldbl \<Rightarrow> 32
      | OtherKind _ \<Rightarrow> 1)"

fun c_strides :: "nat list \<Rightarrow> nat \<Rightarrow> int list" where
  "c_strides [] sz = []"
| "c_strides (d # ds) sz = int (sz * prod_list ds) # c_strides ds sz"

text \<open>
  \<^verbatim>\<open>py::array_t<T>(dims)\<close>: pybind11 asks NumPy for a new C-contiguous array with no
  data pointer, and NumPy allocates the memory without initialising it. \<open>mem\<close> is what
  that memory holds (item sizes are those of x86-64 Linux).
\<close>

definition array_t :: "(int \<Rightarrow> complex) \<Rightarrow> dtype \<Rightarrow> nat list \<Rightarrow> pyarray" where
  "array_t mem t dims =
     \<lparr>a_dtype = t, a_shape = dims, a_strides = c_strides dims (itemsize t),
      a_data = (if kind_is_c t then CBuf mem else RBuf (\<lambda>i. Re (mem i)))\<rparr>"

text \<open>
  The \<^verbatim>\<open>out\<close> object is \<open>None\<close> or a NumPy array, taken to be writeable.
  \<^verbatim>\<open>out_.cast<py::array_t<T>>()\<close> gives the object itself when it is an array of element
  type \<^verbatim>\<open>T\<close> already, and a converted new object otherwise, which
  \<^verbatim>\<open>!tmp.is(out_)\<close> detects. \<open>dims\<close> is not looked at for a supplied array.
\<close>

definition prepare_output ::
  "(int \<Rightarrow> complex) \<Rightarrow> dtype \<Rightarrow> pyarray option \<Rightarrow> nat list \<Rightarrow> error + pyarray" where
  "prepare_output mem t out' dims =
     (case out' of
        None \<Rightarrow> Inr (array_t mem t dims)
      | Some tmp \<Rightarrow> if a_dtype tmp = t then Inr tmp else Inl UnexpectedOutputType)"

subsection \<open>The element-type dispatch\<close>

text \<open>The macro \<^verbatim>\<open>DISPATCH(arr, T1, T2, T3, func, args)\<close>.\<close>

definition DISPATCH ::
  "pyarray \<Rightarrow> dtype \<Rightarrow> dtype \<Rightarrow> dtype \<Rightarrow> (precision \<Rightarrow> error + 'a) \<Rightarrow> error + 'a" where
  "DISPATCH arr T1 T2 T3 func =
     (if a_dtype arr = T1 then func T_double
      else if a_dtype arr = T2 then func T_float
      else if a_dtype arr = T3 then func T_ldbl
      else Inl UnsupportedDataType)"

subsection \<open>The iterators of the post-processing passes\<close>

text \<open>
  The classes \<^verbatim>\<open>simple_iter\<close> and \<^verbatim>\<open>rev_iter\<close> are declared in
  \<^verbatim>\<open>pocketfft_hdronly.h\<close>, which is not among the sources; the loops that use them are.
  Offsets are byte offsets from the data pointer, as the strides are.
\<close>

text \<open>
  Modelled from the spec: the offset of a position of a strided view (missing:
  \<^verbatim>\<open>arr_info\<close> of \<^verbatim>\<open>pocketfft_hdronly.h\<close>), the sum of coordinate times stride.
\<close>

fun offset :: "nat list \<Rightarrow> int list \<Rightarrow> int" where
  "offset (p # ps) (s # ss) = int p * s + offset ps ss"
| "offset _ _ = 0"

text \<open>
  Modelled from the spec: one step of a walk in forward (natural) order, the last axis
  fastest (missing: \<^verbatim>\<open>advance\<close> of both iterators). The result is the carry out of the
  first axis and the new position.
\<close>

fun next_pos :: "nat list \<Rightarrow> nat list \<Rightarrow> bool \<times> nat list" where
  "next_pos (n # ns) (p # ps) =
     (case next_pos ns ps of
        (carry, ps') \<Rightarrow>
          if carry then (if Suc p < n then (False, Suc p # ps') else (True, 0 # ps'))
          else (False, p # ps'))"
| "next_pos _ _ = (True, [])"

text \<open>
  Modelled from the spec: the mirror of a position (missing: the reflection that
  \<^verbatim>\<open>rev_iter\<close> computes). The coordinate \<open>i\<close> of every transformed axis, of length \<open>n\<close>,
  is reflected to \<open>(n - i) mod n\<close>; the other coordinates stay.
\<close>

fun mirror :: "bool list \<Rightarrow> nat list \<Rightarrow> nat list \<Rightarrow> nat list" where
  "mirror (r # rs) (n # ns) (p # ps) = (if r then (n - p) mod n else p) # mirror rs ns ps"
| "mirror _ _ _ = []"

text \<open>
  Modelled from the spec: the forward iterator (missing: the class \<^verbatim>\<open>simple_iter\<close>).
  It walks a view over its own extent in natural order; \<^verbatim>\<open>remaining()\<close> is \<open>si_rem\<close>,
  \<^verbatim>\<open>ofs()\<close> is \<open>si_ofs\<close> and \<^verbatim>\<open>advance()\<close> is \<open>si_advance\<close>.
\<close>

record simple_iter =
  si_shape :: "nat list"
  si_stride :: "int list"
  si_pos :: "nat list"
  si_rem :: nat

definition simple_iter_new :: "nat list \<Rightarrow> int list \<Rightarrow> simple_iter" where
  "simple_iter_new shp str =
     \<lparr>si_shape = shp, si_stride = str, si_pos = replicate (length shp) 0,
      si_rem = prod_list shp\<rparr>"

definition si_ofs :: "simple_iter \<Rightarrow> int" where
  "si_ofs it = offset (si_pos it) (si_stride it)"

definition si_advance :: "simple_iter \<Rightarrow> simple_iter" where
  "si_advance it =
     it\<lparr>si_rem := si_rem it - 1, si_pos := snd (next_pos (si_shape it) (si_pos it))\<rparr>"

text \<open>
  Modelled from the spec: the mirror iterator (missing: the class \<^verbatim>\<open>rev_iter\<close>). It
  walks the forward half of a view, that is, the view with its last transformed axis cut
  from \<open>n\<close> to \<open>n div 2 + 1\<close>, in natural order, and gives at each position the forward
  offset \<^verbatim>\<open>ofs()\<close> and the mirror offset \<^verbatim>\<open>rev_ofs()\<close> across the transformed axes;
  \<^verbatim>\<open>remaining()\<close> is \<open>ri_rem\<close>, the number of positions of the forward half not yet left.
  It is built from a view and the axes, and takes the last of the axes with
  \<^verbatim>\<open>back()\<close>.
\<close>

record rev_iter =
  ri_shape :: "nat list"
  ri_stride :: "int list"
  ri_rev_axis :: "bool list"
  ri_shp :: "nat list"
  ri_pos :: "nat list"
  ri_rem :: nat

definition rev_axes :: "nat \<Rightarrow> nat list \<Rightarrow> bool list" where
  "rev_axes nd axes = map (\<lambda>i. i \<in> set axes) [0..<nd]"

definition forward_half :: "nat list \<Rightarrow> nat list \<Rightarrow> nat list" where
  "forward_half shp axes = shp[last axes := shp ! last axes div 2 + 1]"

definition rev_iter_new :: "nat list \<Rightarrow> int list \<Rightarrow> nat list \<Rightarrow> error + rev_iter" where
  "rev_iter_new shp str axes =
     (case vec_back axes of
        Inl e \<Rightarrow> Inl e
      | Inr last_axis \<Rightarrow>
          Inr \<lparr>ri_shape = shp, ri_stride = str, ri_rev_axis = rev_axes (length shp) axes,
               ri_shp = forward_half shp axes, ri_pos = replicate (length shp) 0,
               ri_rem = prod_list (forward_half shp axes)\<rparr>)"

definition ri_ofs :: "rev_iter \<Rightarrow> int" where
  "ri_ofs it = offset (ri_pos it) (ri_stride it)"

definition ri_rev_ofs :: "rev_iter \<Rightarrow> int" where
  "ri_rev_ofs it = offset (mirror (ri_rev_axis it) (ri_shape it) (ri_pos it)) (ri_stride it)"

definition ri_advance :: "rev_iter \<Rightarrow> rev_iter" where
  "ri_advance it =
     it\<lparr>ri_rem := ri_rem it - 1, ri_pos := snd (next_pos (ri_shp it) (ri_pos it))\<rparr>"

subsection \<open>The transforms\<close>

text \<open>
  A kernel takes the arguments of the C++ call in their order (the shape, the strides of
  the input and of the output, the axes, the flags, the memory of the input and of the
  output, the factor and the number of threads) and gives the new contents of the output,
  or the message of the exception it throws.
\<close>

type_synonym 'v kernel =
  "nat list \<Rightarrow> int list \<Rightarrow> int list \<Rightarrow> nat list \<Rightarrow> bool \<Rightarrow> buffer \<Rightarrow> buffer \<Rightarrow> fval \<Rightarrow> nat
   \<Rightarrow> string + (int \<Rightarrow> 'v)"

type_synonym 'v kernel2 =
  "nat list \<Rightarrow> int list \<Rightarrow> int list \<Rightarrow> nat list \<Rightarrow> bool \<Rightarrow> bool \<Rightarrow> buffer \<Rightarrow> buffer \<Rightarrow> fval
   \<Rightarrow> nat \<Rightarrow> string + (int \<Rightarrow> 'v)"

type_synonym 'v kernel0 =
  "nat list \<Rightarrow> int list \<Rightarrow> int list \<Rightarrow> nat list \<Rightarrow> buffer \<Rightarrow> buffer \<Rightarrow> fval \<Rightarrow> nat
   \<Rightarrow> string + (int \<Rightarrow> 'v)"

record kernels =
  pocketfft_c2c :: "complex kernel"
  pocketfft_r2c :: "complex kernel"
  pocketfft_c2r :: "real kernel"
  pocketfft_r2r_fftpack :: "real kernel2"
  pocketfft_r2r_separable_hartley :: "real kernel0"

definition c2c_internal ::
  "(int \<Rightarrow> complex) \<Rightarrow> kernels \<Rightarrow> precision \<Rightarrow> pyarray \<Rightarrow> int list option \<Rightarrow> bool \<Rightarrow> int
   \<Rightarrow> pyarray option \<Rightarrow> nat \<Rightarrow> error + pyarray" where
  "c2c_internal mem K T arr axes' forward inorm out' nthreads =
     (case makeaxes arr axes' of
        Inl e \<Rightarrow> Inl e
      | Inr axes \<Rightarrow>
          let dims = copy_shape arr in
          (case prepare_output mem (Cplx T) out' dims of
             Inl e \<Rightarrow> Inl e
           | Inr res \<Rightarrow>
               let s_in = copy_strides arr; s_out = copy_strides res in
               (case norm_fct_shape inorm dims axes of
                  Inl e \<Rightarrow> Inl e
                | Inr fct \<Rightarrow>
                    (case pocketfft_c2c K dims s_in s_out axes forward (a_data arr)
                            (a_data res) fct nthreads of
                       Inl msg \<Rightarrow> Inl (KernelError msg)
                     | Inr d \<Rightarrow> Inr (res\<lparr>a_data := CBuf d\<rparr>)))))"

text \<open>The loop \<^verbatim>\<open>while(iter.remaining()>0)\<close> that fills in the second half.\<close>

function c2c_sym_loop :: "rev_iter \<Rightarrow> (int \<Rightarrow> complex) \<Rightarrow> (int \<Rightarrow> complex)" where
  "c2c_sym_loop iter ares =
     (if ri_rem iter > 0 then
        (let v = ares (ri_ofs iter) in
         c2c_sym_loop (ri_advance iter) (ares(ri_rev_ofs iter := cnj v)))
      else ares)"
  by pat_completeness auto
termination
  by (relation "measure (\<lambda>(iter, ares). ri_rem iter)") (auto simp: ri_advance_def)

declare c2c_sym_loop.simps [simp del]

definition c2c_sym_internal ::
  "(int \<Rightarrow> complex) \<Rightarrow> kernels \<Rightarrow> precision \<Rightarrow> pyarray \<Rightarrow> int list option \<Rightarrow> bool \<Rightarrow> int
   \<Rightarrow> pyarray option \<Rightarrow> nat \<Rightarrow> error + pyarray" where
  "c2c_sym_internal mem K T arr axes' forward inorm out' nthreads =
     (case makeaxes arr axes' of
        Inl e \<Rightarrow> Inl e
      | Inr axes \<Rightarrow>
          let dims = copy_shape arr in
          (case prepare_output mem (Cplx T) out' dims of
             Inl e \<Rightarrow> Inl e
           | Inr res \<Rightarrow>
               let s_in = copy_strides arr; s_out = copy_strides res in
               (case norm_fct_shape inorm dims axes of
                  Inl e \<Rightarrow> Inl e
                | Inr fct \<Rightarrow>
                    (case pocketfft_r2c K dims s_in s_out axes forward (a_data arr)
                            (a_data res) fct nthreads of
                       Inl msg \<Rightarrow> Inl (KernelError msg)
                     | Inr d \<Rightarrow>
                         (case rev_iter_new dims s_out axes of
                            Inl e \<Rightarrow> Inl e
                          | Inr iter \<Rightarrow> Inr (res\<lparr>a_data := CBuf (c2c_sym_loop iter d)\<rparr>))))))"

definition c2c ::
  "(int \<Rightarrow> complex) \<Rightarrow> kernels \<Rightarrow> pyarray \<Rightarrow> int list option \<Rightarrow> bool \<Rightarrow> int
   \<Rightarrow> pyarray option \<Rightarrow> nat \<Rightarrow> error + pyarray" where
  "c2c mem K a axes' forward inorm out' nthreads =
     (if kind_is_c (a_dtype a) then
        DISPATCH a c128 c64 clong
          (\<lambda>T. c2c_internal mem K T a axes' forward inorm out' nthreads)
      else
        DISPATCH a f64 f32 flong
          (\<lambda>T. c2c_sym_internal mem K T a axes' forward inorm out' nthreads))"

definition r2c_internal ::
  "(int \<Rightarrow> complex) \<Rightarrow> kernels \<Rightarrow> precision \<Rightarrow> pyarray \<Rightarrow> int list option \<Rightarrow> bool \<Rightarrow> int
   \<Rightarrow> pyarray option \<Rightarrow> nat \<Rightarrow> error + pyarray" where
  "r2c_internal mem K T arr axes' forward inorm out' nthreads =
     (case makeaxes arr axes' of
        Inl e \<Rightarrow> Inl e
      | Inr axes \<Rightarrow>
          let dims_in = copy_shape arr in
          (case vec_back axes of
             Inl e \<Rightarrow> Inl e
           | Inr last_axis \<Rightarrow>
               let dims_out = dims_in[last_axis := dims_in ! last_axis div 2 + 1] in
               (case prepare_output mem (Cplx T) out' dims_out of
                  Inl e \<Rightarrow> Inl e
                | Inr res \<Rightarrow>
                    let s_in = copy_strides arr; s_out = copy_strides res in
                    (case norm_fct_shape inorm dims_in axes of
                       Inl e \<Rightarrow> Inl e
                     | Inr fct \<Rightarrow>
                         (case pocketfft_r2c K dims_in s_in s_out axes forward (a_data arr)
                                 (a_data res) fct nthreads of
                            Inl msg \<Rightarrow> Inl (KernelError msg)
                          | Inr d \<Rightarrow> Inr (res\<lparr>a_data := CBuf d\<rparr>))))))"

definition r2c ::
  "(int \<Rightarrow> complex) \<Rightarrow> kernels \<Rightarrow> pyarray \<Rightarrow> int list option \<Rightarrow> bool \<Rightarrow> int
   \<Rightarrow> pyarray option \<Rightarrow> nat \<Rightarrow> error + pyarray" where
  "r2c mem K arr axes' forward inorm out' nthreads =
     DISPATCH arr f64 f32 flong
       (\<lambda>T. r2c_internal mem K T arr axes' forward inorm out' nthreads)"

definition r2r_fftpack_internal ::
  "(int \<Rightarrow> complex) \<Rightarrow> kernels \<Rightarrow> precision \<Rightarrow> pyarray \<Rightarrow> int list option \<Rightarrow> bool \<Rightarrow> bool
   \<Rightarrow> int \<Rightarrow> pyarray option \<Rightarrow> nat \<Rightarrow> error + pyarray" where
  "r2r_fftpack_internal mem K T arr axes' real2hermitian forward inorm out' nthreads =
     (case makeaxes arr axes' of
        Inl e \<Rightarrow> Inl e
      | Inr axes \<Rightarrow>
          let dims = copy_shape arr in
          (case prepare_output mem (Real T) out' dims of
             Inl e \<Rightarrow> Inl e
           | Inr res \<Rightarrow>
               let s_in = copy_strides arr; s_out = copy_strides res in
               (case norm_fct_shape inorm dims axes of
                  Inl e \<Rightarrow> Inl e
                | Inr fct \<Rightarrow>
                    (case pocketfft_r2r_fftpack K dims s_in s_out axes real2hermitian forward
                            (a_data arr) (a_data res) fct nthreads of
                       Inl msg \<Rightarrow> Inl (KernelError msg)
                     | Inr d \<Rightarrow> Inr (res\<lparr>a_data := RBuf d\<rparr>)))))"

definition r2r_fftpack ::
  "(int \<Rightarrow> complex) \<Rightarrow> kernels \<Rightarrow> pyarray \<Rightarrow> int list option \<Rightarrow> bool \<Rightarrow> bool \<Rightarrow> int
   \<Rightarrow> pyarray option \<Rightarrow> nat \<Rightarrow> error + pyarray" where
  "r2r_fftpack mem K arr axes' real2hermitian forward inorm out' nthreads =
     DISPATCH arr f64 f32 flong
       (\<lambda>T. r2r_fftpack_internal mem K T arr axes' real2hermitian forward inorm out' nthreads)"

text \<open>
  The two statements on \<^verbatim>\<open>lastsize\<close> in \<^verbatim>\<open>c2r_internal\<close>: the inference
  \<^verbatim>\<open>if (lastsize==0) lastsize=2*dims_in[axis]-1\<close> and the test
  \<^verbatim>\<open>(lastsize/2) + 1 != dims_in[axis]\<close>, both in \<^verbatim>\<open>size_t\<close> arithmetic.
\<close>

definition infer_lastsize :: "nat \<Rightarrow> nat \<Rightarrow> nat" where
  "infer_lastsize lastsize n = (if lastsize = 0 then size_t (2 * int n - 1) else lastsize)"

definition bad_lastsize :: "nat \<Rightarrow> nat \<Rightarrow> bool" where
  "bad_lastsize lastsize n = (size_t (int (lastsize div 2) + 1) \<noteq> n)"

definition c2r_internal ::
  "(int \<Rightarrow> complex) \<Rightarrow> kernels \<Rightarrow> precision \<Rightarrow> pyarray \<Rightarrow> int list option \<Rightarrow> nat \<Rightarrow> bool \<Rightarrow> int
   \<Rightarrow> pyarray option \<Rightarrow> nat \<Rightarrow> error + pyarray" where
  "c2r_internal mem K T arr axes' lastsize forward inorm out' nthreads =
     (case makeaxes arr axes' of
        Inl e \<Rightarrow> Inl e
      | Inr axes \<Rightarrow>
          (case vec_back axes of
             Inl e \<Rightarrow> Inl e
           | Inr axis \<Rightarrow>
               let dims_in = copy_shape arr;
                   lastsize1 = infer_lastsize lastsize (dims_in ! axis)
               in
               if bad_lastsize lastsize1 (dims_in ! axis) then Inl BadLastsize
               else
                 let dims_out = dims_in[axis := lastsize1] in
                 (case prepare_output mem (Real T) out' dims_out of
                    Inl e \<Rightarrow> Inl e
                  | Inr res \<Rightarrow>
                      let s_in = copy_strides arr; s_out = copy_strides res in
                      (case norm_fct_shape inorm dims_out axes of
                         Inl e \<Rightarrow> Inl e
                       | Inr fct \<Rightarrow>
                           (case pocketfft_c2r K dims_out s_in s_out axes forward (a_data arr)
                                   (a_data res) fct nthreads of
                              Inl msg \<Rightarrow> Inl (KernelError msg)
                            | Inr d \<Rightarrow> Inr (res\<lparr>a_data := RBuf d\<rparr>))))))"

definition c2r ::
  "(int \<Rightarrow> complex) \<Rightarrow> kernels \<Rightarrow> pyarray \<Rightarrow> int list option \<Rightarrow> nat \<Rightarrow> bool \<Rightarrow> int
   \<Rightarrow> pyarray option \<Rightarrow> nat \<Rightarrow> error + pyarray" where
  "c2r mem K arr axes' lastsize forward inorm out' nthreads =
     DISPATCH arr c128 c64 clong
       (\<lambda>T. c2r_internal mem K T arr axes' lastsize forward inorm out' nthreads)"

definition separable_hartley_internal ::
  "(int \<Rightarrow> complex) \<Rightarrow> kernels \<Rightarrow> precision \<Rightarrow> pyarray \<Rightarrow> int list option \<Rightarrow> int
   \<Rightarrow> pyarray option \<Rightarrow> nat \<Rightarrow> error + pyarray" where
  "separable_hartley_internal mem K T arr axes' inorm out' nthreads =
     (let dims = copy_shape arr in
      case prepare_output mem (Real T) out' dims of
        Inl e \<Rightarrow> Inl e
      | Inr res \<Rightarrow>
          (case makeaxes arr axes' of
             Inl e \<Rightarrow> Inl e
           | Inr axes \<Rightarrow>
               let s_in = copy_strides arr; s_out = copy_strides res in
               (case norm_fct_shape inorm dims axes of
                  Inl e \<Rightarrow> Inl e
                | Inr fct \<Rightarrow>
                    (case pocketfft_r2r_separable_hartley K dims s_in s_out axes (a_data arr)
                            (a_data res) fct nthreads of
                       Inl msg \<Rightarrow> Inl (KernelError msg)
                     | Inr d \<Rightarrow> Inr (res\<lparr>a_data := RBuf d\<rparr>)))))"

definition separable_hartley ::
  "(int \<Rightarrow> complex) \<Rightarrow> kernels \<Rightarrow> pyarray \<Rightarrow> int list option \<Rightarrow> int
   \<Rightarrow> pyarray option \<Rightarrow> nat \<Rightarrow> error + pyarray" where
  "separable_hartley mem K arr axes' inorm out' nthreads =
     DISPATCH arr f64 f32 flong
       (\<lambda>T. separable_hartley_internal mem K T arr axes' inorm out' nthreads)"

text \<open>
  \<^verbatim>\<open>cndarr<cmplx<T>> atmp(tmp.data(), ...)\<close> and \<^verbatim>\<open>ndarr<T> aout(out.mutable_data(), ...)\<close>
  read the memory of an array at a given element type. Reading memory of the other
  kind is not given a meaning.
\<close>

fun complex_view :: "buffer \<Rightarrow> error + (int \<Rightarrow> complex)" where
  "complex_view (CBuf f) = Inr f"
| "complex_view (RBuf f) = Inl UndefinedBehaviour"

fun real_view :: "buffer \<Rightarrow> error + (int \<Rightarrow> real)" where
  "real_view (RBuf f) = Inr f"
| "real_view (CBuf f) = Inl UndefinedBehaviour"

text \<open>The element that a read at a byte offset gives (a real one as a complex number).\<close>

fun buffer_at :: "buffer \<Rightarrow> int \<Rightarrow> complex" where
  "buffer_at (RBuf f) i = complex_of_real (f i)"
| "buffer_at (CBuf f) i = f i"

text \<open>The loop \<^verbatim>\<open>while(iin.remaining()>0)\<close> of \<^verbatim>\<open>complex2hartley\<close>.\<close>

function hartley_loop ::
  "(int \<Rightarrow> complex) \<Rightarrow> simple_iter \<Rightarrow> rev_iter \<Rightarrow> (int \<Rightarrow> real) \<Rightarrow> (int \<Rightarrow> real)" where
  "hartley_loop atmp iin iout aout =
     (if si_rem iin > 0 then
        (let v = atmp (si_ofs iin);
             aout1 = aout(ri_ofs iout := Re v + Im v);
             aout2 = aout1(ri_rev_ofs iout := Re v - Im v)
         in hartley_loop atmp (si_advance iin) (ri_advance iout) aout2)
      else aout)"
  by pat_completeness auto
termination
  by (relation "measure (\<lambda>(atmp, iin, iout, aout). si_rem iin)") (auto simp: si_advance_def)

declare hartley_loop.simps [simp del]

definition complex2hartley ::
  "(int \<Rightarrow> complex) \<Rightarrow> precision \<Rightarrow> pyarray \<Rightarrow> pyarray \<Rightarrow> int list option \<Rightarrow> pyarray option
   \<Rightarrow> error + pyarray" where
  "complex2hartley mem T arr tmp axes' out' =
     (let dims_out = copy_shape arr in
      case prepare_output mem (Real T) out' dims_out of
        Inl e \<Rightarrow> Inl e
      | Inr out \<Rightarrow>
          (case complex_view (a_data tmp) of
             Inl e \<Rightarrow> Inl e
           | Inr atmp \<Rightarrow>
               (case real_view (a_data out) of
                  Inl e \<Rightarrow> Inl e
                | Inr aout \<Rightarrow>
                    (case makeaxes arr axes' of
                       Inl e \<Rightarrow> Inl e
                     | Inr axes \<Rightarrow>
                         let iin = simple_iter_new (copy_shape tmp) (copy_strides tmp) in
                         (case rev_iter_new (copy_shape out) (copy_strides out) axes of
                            Inl e \<Rightarrow> Inl e
                          | Inr iout \<Rightarrow>
                              if si_rem iin \<noteq> ri_rem iout then Inl IteratorCountMismatch
                              else Inr (out\<lparr>a_data :=
                                          RBuf (hartley_loop atmp iin iout aout)\<rparr>))))))"

definition genuine_hartley ::
  "(int \<Rightarrow> complex) \<Rightarrow> kernels \<Rightarrow> pyarray \<Rightarrow> int list option \<Rightarrow> int
   \<Rightarrow> pyarray option \<Rightarrow> nat \<Rightarrow> error + pyarray" where
  "genuine_hartley mem K arr axes' inorm out' nthreads =
     (case r2c mem K arr axes' True inorm None nthreads of
        Inl e \<Rightarrow> Inl e
      | Inr tmp \<Rightarrow>
          DISPATCH arr f64 f32 flong (\<lambda>T. complex2hartley mem T arr tmp axes' out'))"

subsection \<open>The module's functions and their arguments\<close>

text \<open>
  \<^verbatim>\<open>PYBIND11_MODULE\<close> registers each function with its named arguments;
  \<^verbatim>\<open>"axes"_a=None\<close> gives an argument a default value, \<^verbatim>\<open>"axes"_a\<close> gives it none.
  A call binds the positional arguments in order, then the keywords, then the defaults,
  and fails with a \<^verbatim>\<open>TypeError\<close> when an argument is left without a value.
\<close>

datatype pyobject = PyNone | PyBool bool | PyInt int | PyInts "int list" | PyArray pyarray

type_synonym arg = "string \<times> pyobject option"

definition module_defs :: "(string \<times> arg list) list" where
  "module_defs =
     [(''c2c'', [(''a'', None), (''axes'', Some PyNone), (''forward'', Some (PyBool True)),
        (''inorm'', Some (PyInt 0)), (''out'', Some PyNone), (''nthreads'', Some (PyInt 1))]),
      (''r2c'', [(''a'', None), (''axes'', Some PyNone), (''forward'', Some (PyBool True)),
        (''inorm'', Some (PyInt 0)), (''out'', Some PyNone), (''nthreads'', Some (PyInt 1))]),
      (''c2r'', [(''a'', None), (''axes'', Some PyNone), (''lastsize'', Some (PyInt 0)),
        (''forward'', Some (PyBool True)), (''inorm'', Some (PyInt 0)), (''out'', Some PyNone),
        (''nthreads'', Some (PyInt 1))]),
      (''r2r_fftpack'', [(''a'', None), (''axes'', None), (''real2hermitian'', None),
        (''forward'', None), (''inorm'', Some (PyInt 0)), (''out'', Some PyNone),
        (''nthreads'', Some (PyInt 1))]),
      (''separable_hartley'', [(''a'', None), (''axes'', Some PyNone),
        (''inorm'', Some (PyInt 0)), (''out'', Some PyNone), (''nthreads'', Some (PyInt 1))]),
      (''genuine_hartley'', [(''a'', None), (''axes'', Some PyNone),
        (''inorm'', Some (PyInt 0)), (''out'', Some PyNone), (''nthreads'', Some (PyInt 1))])]"

datatype bind_error = TypeError

fun bind_args ::
  "arg list \<Rightarrow> pyobject list \<Rightarrow> (string \<times> pyobject) list
   \<Rightarrow> bind_error + (string \<times> pyobject) list" where
  "bind_args [] [] kw = Inr []"
| "bind_args [] (p # ps) kw = Inl TypeError"
| "bind_args ((name, dflt) # args) (p # ps) kw =
     (if map_of kw name \<noteq> None then Inl TypeError
      else (case bind_args args ps kw of
              Inl e \<Rightarrow> Inl e
            | Inr bound \<Rightarrow> Inr ((name, p) # bound)))"
| "bind_args ((name, dflt) # args) [] kw =
     (case (case map_of kw name of Some v \<Rightarrow> Some v | None \<Rightarrow> dflt) of
        None \<Rightarrow> Inl TypeError
      | Some v \<Rightarrow>
          (case bind_args args [] kw of
             Inl e \<Rightarrow> Inl e
           | Inr bound \<Rightarrow> Inr ((name, v) # bound)))"

text \<open>
  A call of the module's function \<open>f\<close> with positional arguments \<open>ps\<close> and keywords
  \<open>kw\<close>: the value bound to each argument name. A keyword that names no argument is a
  \<^verbatim>\<open>TypeError\<close>.
\<close>

definition bind_call ::
  "string \<Rightarrow> pyobject list \<Rightarrow> (string \<times> pyobject) list
   \<Rightarrow> bind_error + (string \<times> pyobject) list" where
  "bind_call f ps kw =
     (case map_of module_defs f of
        None \<Rightarrow> Inl TypeError
      | Some args \<Rightarrow>
          if list_all (\<lambda>(k, v). map_of args k \<noteq> None) kw then bind_args args ps kw
          else Inl TypeError)"

subsection \<open>What the post-processing passes compute\<close>

text \<open>
  The positions of a shape in natural order: position number \<open>k\<close> is the list of the
  mixed-radix digits of \<open>k\<close>, and \<open>encode\<close> gives the number of a position back.
\<close>

fun decode :: "nat list \<Rightarrow> nat \<Rightarrow> nat list" where
  "decode [] k = []"
| "decode (n # ns) k = (k div prod_list ns) # decode ns (k mod prod_list ns)"

definition positions :: "nat list \<Rightarrow> nat list list" where
  "positions shp = map (decode shp) [0..<prod_list shp]"



text \<open>
  The step of the Hartley pass at the position \<open>p\<close> of the spectrum and \<open>q\<close> of the
  output: with \<open>v\<close> the element of the spectrum, \<open>Re v + Im v\<close> goes to the forward offset
  of the output and \<open>Re v - Im v\<close> to its mirror offset.
\<close>

definition hartley_step ::
  "(int \<Rightarrow> complex) \<Rightarrow> int list \<Rightarrow> bool list \<Rightarrow> nat list \<Rightarrow> int list \<Rightarrow> (int \<Rightarrow> real)
   \<Rightarrow> nat list \<times> nat list \<Rightarrow> (int \<Rightarrow> real)" where
  "hartley_step atmp s_tmp ra shp s_out aout pq =
     (let v = atmp (offset (fst pq) s_tmp) in
      (aout(offset (snd pq) s_out := Re v + Im v))
        (offset (mirror ra shp (snd pq)) s_out := Re v - Im v))"



subsection \<open>Kernels for the examples\<close>

text \<open>
  Kernels that succeed on every call and leave \<open>c\<close> in a complex output and \<open>r\<close> in a
  real one. The theorems hold for every kernel; the examples are run with these.
\<close>

definition example_kernels :: "(int \<Rightarrow> complex) \<Rightarrow> (int \<Rightarrow> real) \<Rightarrow> kernels" where
  "example_kernels c r =
     \<lparr>pocketfft_c2c = (\<lambda>shp s_in s_out axes forward d_in d_out fct nthreads. Inr c),
      pocketfft_r2c = (\<lambda>shp s_in s_out axes forward d_in d_out fct nthreads. Inr c),
      pocketfft_c2r = (\<lambda>shp s_in s_out axes forward d_in d_out fct nthreads. Inr r),
      pocketfft_r2r_fftpack =
        (\<lambda>shp s_in s_out axes real2hermitian forward d_in d_out fct nthreads. Inr r),
      pocketfft_r2r_separable_hartley =
        (\<lambda>shp s_in s_out axes d_in d_out fct nthreads. Inr r)\<rparr>"

section \<open>Properties\<close>

subsection \<open>Basic facts\<close>

lemma copy_shape_eq: "copy_shape arr = a_shape arr"
  by (simp add: copy_shape_def ndim_def map_nth)

lemma DISPATCH_real: "a_dtype arr = Real T \<Longrightarrow> DISPATCH arr f64 f32 flong func = func T"
  by (cases T) (simp_all add: DISPATCH_def)

lemma DISPATCH_cplx: "a_dtype arr = Cplx T \<Longrightarrow> DISPATCH arr c128 c64 clong func = func T"
  by (cases T) (simp_all add: DISPATCH_def)

lemma int_size_t: "int (size_t i) = i mod 2 ^ 64"
  by (simp add: size_t_def)

lemma size_t_mult_left: "size_t (int (size_t x) * y) = size_t (x * y)"
  by (simp add: size_t_def mod_mult_left_eq)

lemma size_t_id: "n < 2 ^ 64 \<Longrightarrow> size_t (int n) = n"
proof -
  assume "n < 2 ^ 64"
  then have "int n < 2 ^ 64" by (metis of_nat_less_iff of_nat_numeral of_nat_power)
  then show ?thesis by (simp add: size_t_def)
qed

subsection \<open>Axis resolution\<close>

lemma normalize_axes_eq:
  "normalize_axes nd xs =
     (if list_all (\<lambda>x. 0 \<le> add_ndim nd x \<and> add_ndim nd x < nd) xs
      then Inr (map (\<lambda>x. nat (add_ndim nd x)) xs)
      else Inl AxesExceedDimensionality)"
  by (induction xs) (auto simp: Let_def)

lemma makeaxes_in_range:
  assumes "makeaxes arr axes' = Inr axes"
  shows "list_all (\<lambda>a. a < ndim arr) axes"
proof (cases axes')
  case None
  with assms show ?thesis by (auto simp: makeaxes_def list_all_iff)
next
  case (Some xs)
  with assms have "normalize_axes (int (ndim arr)) xs = Inr axes"
    by (auto simp: makeaxes_def cast_vector_ptrdiff_def split: if_splits)
  then have ax: "axes = map (\<lambda>x. nat (add_ndim (int (ndim arr)) x)) xs"
    and ok: "list_all (\<lambda>x. 0 \<le> add_ndim (int (ndim arr)) x
                          \<and> add_ndim (int (ndim arr)) x < int (ndim arr)) xs"
    by (auto simp: normalize_axes_eq split: if_splits)
  show ?thesis unfolding ax using ok by (auto simp: list_all_iff)
qed



subsection \<open>The normalisation factor\<close>

lemma axes_product_eq:
  "list_all (\<lambda>a. a < length shp) axes \<Longrightarrow>
   axes_product shp axes (size_t M) = Inr (size_t (M * (\<Prod>a\<leftarrow>axes. int (shp ! a))))"
proof (induction axes arbitrary: M)
  case Nil
  then show ?case by simp
next
  case (Cons a axes)
  then show ?case by (simp add: size_t_mult_left mult.assoc)
qed

lemma norm_fct_shape_eq:
  assumes "list_all (\<lambda>a. a < length shp) axes"
  shows "norm_fct_shape inorm shp axes = norm_fct inorm (size_t (\<Prod>a\<leftarrow>axes. int (shp ! a)))"
proof -
  have "axes_product shp axes (size_t 1) = Inr (size_t (1 * (\<Prod>a\<leftarrow>axes. int (shp ! a))))"
    using assms by (rule axes_product_eq)
  moreover have "size_t 1 = 1" by (simp add: size_t_def)
  ultimately show ?thesis by (simp add: norm_fct_shape_def norm_fct_def)
qed

lemma axes_product_error: "axes_product shp axes N = Inl e \<Longrightarrow> e = UndefinedBehaviour"
  by (induction axes arbitrary: N) (auto split: if_splits)

lemma norm_fct_shape_error:
  "norm_fct_shape inorm shp axes = Inl e \<Longrightarrow> e = UndefinedBehaviour \<or> e = InvalidInorm"
  by (auto simp: norm_fct_shape_def norm_fct_def split: if_splits sum.splits
      dest: axes_product_error)

text \<open>
  C5. \<^verbatim>\<open>norm_fct\<close> gives 1 for mode 0, \<open>1 / sqrt N\<close> for mode 1 and \<open>1 / N\<close> for mode 2
  (the infinity of the floating type when \<open>N = 0\<close>), and fails with an invalid-argument
  error for every other mode. In the form that takes a shape, \<open>N\<close> is the product of
  \<open>shape[a]\<close> over the listed axes, computed in \<^verbatim>\<open>size_t\<close>. For the shape \<open>[4, 8]\<close> and the
  axes \<open>[0, 1]\<close>, mode 2 gives \<open>1 / 32\<close>, mode 1 gives \<open>1 / sqrt 32\<close> and mode 0 gives 1.
\<close>

theorem norm_fct_contract:
  "norm_fct 0 N = Inr (Finite 1)
   \<and> norm_fct 1 N = Inr (reciprocal (sqrt (real N)))
   \<and> norm_fct 2 N = Inr (reciprocal (real N))
   \<and> (0 < N \<longrightarrow> norm_fct 1 N = Inr (Finite (1 / sqrt (real N)))
                \<and> norm_fct 2 N = Inr (Finite (1 / real N)))
   \<and> (inorm \<notin> {0, 1, 2} \<longrightarrow> norm_fct inorm N = Inl InvalidInorm)
   \<and> (list_all (\<lambda>a. a < length shp) axes \<longrightarrow>
        norm_fct_shape inorm shp axes
          = norm_fct inorm (size_t (\<Prod>a\<leftarrow>axes. int (shp ! a))))
   \<and> norm_fct_shape 2 [4, 8] [0, 1] = Inr (Finite (1 / 32))
   \<and> norm_fct_shape 1 [4, 8] [0, 1] = Inr (Finite (1 / sqrt 32))
   \<and> norm_fct_shape 0 [4, 8] [0, 1] = Inr (Finite 1)"
proof -
  have ex: "norm_fct_shape i [4, 8] [0, 1] = norm_fct i 32" for i
    by (simp add: norm_fct_shape_eq size_t_def)
  show ?thesis
    by (simp add: ex norm_fct_shape_eq) (simp add: norm_fct_def reciprocal_def size_t_def)
qed

theorem norm_fct_contract_witness:
  "norm_fct 7 32 = Inl InvalidInorm
   \<and> norm_fct_shape 7 [4, 8] [0, 1] = Inl InvalidInorm
   \<and> norm_fct 2 32 = Inr (Finite (1 / 32))
   \<and> norm_fct_shape 2 [3, 5, 7] [2, 0] = Inr (Finite (1 / 21))"
  using norm_fct_contract [of 32 7 "[4, 8]" "[0, 1]"]
    norm_fct_contract [of 21 2 "[3, 5, 7]" "[2, 0]"]
  by (simp add: size_t_def reciprocal_def)

subsection \<open>Evaluating the examples\<close>

lemmas eval_defs =
  c2c_def r2c_def c2r_def DISPATCH_def c2c_internal_def r2c_internal_def c2r_internal_def
  makeaxes_def ndim_def vec_back_def copy_shape_def copy_strides_def prepare_output_def
  array_t_def norm_fct_shape_def norm_fct_def example_kernels_def itemsize_def Let_def
  infer_lastsize_def bad_lastsize_def size_t_def reciprocal_def

subsection \<open>The length of the last axis in \<^verbatim>\<open>c2r\<close>\<close>

lemma infer_lastsize_zero:
  assumes "1 \<le> n" "n < 2 ^ 63"
  shows "infer_lastsize 0 n = 2 * n - 1"
proof -
  have "int n < 2 ^ 63" using assms(2) by (metis of_nat_less_iff of_nat_numeral of_nat_power)
  then have "(2 * int n - 1) mod 2 ^ 64 = 2 * int n - 1" using assms(1) by simp
  then show ?thesis using assms(1) by (simp add: infer_lastsize_def size_t_def nat_diff_distrib)
qed

lemma bad_lastsize_iff:
  assumes "lastsize < 2 ^ 64"
  shows "bad_lastsize lastsize n \<longleftrightarrow> lastsize div 2 + 1 \<noteq> n"
proof -
  have "lastsize div 2 + 1 < 2 ^ 64" using assms by simp
  then have "size_t (int (lastsize div 2 + 1)) = lastsize div 2 + 1" by (rule size_t_id)
  then show ?thesis by (simp add: bad_lastsize_def add.commute)
qed

lemma prepare_output_error:
  "prepare_output mem t out' dims = Inl e \<Longrightarrow> e = UnexpectedOutputType"
  by (auto simp: prepare_output_def split: option.splits if_splits)

lemma c2r_internal_bad_lastsize_iff:
  assumes "makeaxes arr axes' = Inr axes" "axes \<noteq> []"
  shows "c2r_internal mem K T arr axes' lastsize forward inorm out' nthreads = Inl BadLastsize
         \<longleftrightarrow> bad_lastsize (infer_lastsize lastsize (a_shape arr ! last axes)) (a_shape arr ! last axes)"
  using assms
  by (auto simp: c2r_internal_def vec_back_def copy_shape_eq Let_def
      split: sum.splits dest: norm_fct_shape_error prepare_output_error)

text \<open>
  C3. In \<^verbatim>\<open>c2r\<close> on a complex array whose axes resolve, with \<open>n\<close> the length of the
  input along the last transformed axis: a \<^verbatim>\<open>lastsize\<close> of 0 is replaced by \<open>2 * n - 1\<close>
  (computed in \<^verbatim>\<open>size_t\<close>; it is \<open>2 * n - 1\<close> for every length from 1 that an array can
  have), and this value is the length of the output along that axis; a \<^verbatim>\<open>lastsize\<close> other
  than 0 raises the bad-lastsize error exactly when \<open>lastsize div 2 + 1 \<noteq> n\<close>. With
  \<open>n = 5\<close>, 0 is replaced by 9 and 10 raises the error.
\<close>

theorem c2r_lastsize_contract:
  assumes "a_dtype arr = Cplx T" and "makeaxes arr axes' = Inr axes" and "axes \<noteq> []"
    and "n = a_shape arr ! last axes" and "lastsize < 2 ^ 64"
  shows
    "(lastsize = 0 \<longrightarrow> infer_lastsize lastsize n = size_t (2 * int n - 1))
     \<and> (lastsize = 0 \<and> 1 \<le> n \<and> n < 2 ^ 63 \<longrightarrow> infer_lastsize lastsize n = 2 * n - 1)
     \<and> (lastsize \<noteq> 0 \<longrightarrow>
          (c2r mem K arr axes' lastsize forward inorm out' nthreads = Inl BadLastsize
             \<longleftrightarrow> lastsize div 2 + 1 \<noteq> n))
     \<and> (\<forall>res. c2r mem K arr axes' lastsize forward inorm None nthreads = Inr res \<longrightarrow>
            a_shape res = (a_shape arr)[last axes := infer_lastsize lastsize n])
     \<and> (n = 5 \<longrightarrow>
          infer_lastsize 0 n = 9
          \<and> c2r mem K arr axes' 10 forward inorm out' nthreads = Inl BadLastsize)"
proof -
  have disp: "c2r mem K arr axes' ls forward inorm out1 nthreads
      = c2r_internal mem K T arr axes' ls forward inorm out1 nthreads" for ls out1
    using assms(1) by (simp add: c2r_def DISPATCH_cplx)
  have bad: "c2r mem K arr axes' ls forward inorm out1 nthreads = Inl BadLastsize
      \<longleftrightarrow> bad_lastsize (infer_lastsize ls n) n" for ls out1
    using c2r_internal_bad_lastsize_iff [OF assms(2,3)] by (simp add: disp assms(4))
  have a: "lastsize = 0 \<longrightarrow> infer_lastsize lastsize n = size_t (2 * int n - 1)"
    by (simp add: infer_lastsize_def)
  have b: "lastsize = 0 \<and> 1 \<le> n \<and> n < 2 ^ 63 \<longrightarrow> infer_lastsize lastsize n = 2 * n - 1"
    using infer_lastsize_zero by auto
  have c: "lastsize \<noteq> 0 \<longrightarrow>
      (c2r mem K arr axes' lastsize forward inorm out' nthreads = Inl BadLastsize
         \<longleftrightarrow> lastsize div 2 + 1 \<noteq> n)"
    using bad_lastsize_iff [OF assms(5)] by (simp add: bad infer_lastsize_def)
  have d: "\<forall>res. c2r mem K arr axes' lastsize forward inorm None nthreads = Inr res \<longrightarrow>
      a_shape res = (a_shape arr)[last axes := infer_lastsize lastsize n]"
    using assms(2,3,4)
    by (auto simp: disp c2r_internal_def vec_back_def copy_shape_eq Let_def prepare_output_def
          array_t_def split: sum.splits if_splits)
  have e: "n = 5 \<longrightarrow> infer_lastsize 0 n = 9
      \<and> c2r mem K arr axes' 10 forward inorm out' nthreads = Inl BadLastsize"
    by (simp add: bad) (simp add: infer_lastsize_def bad_lastsize_def size_t_def)
  from a b c d e show ?thesis by blast
qed

theorem c2r_lastsize_contract_witness:
  "c2r (\<lambda>i. 0) (example_kernels (\<lambda>i. 0) (\<lambda>i. 0))
      \<lparr>a_dtype = c128, a_shape = [3, 5], a_strides = [80, 16], a_data = CBuf (\<lambda>i. 0)\<rparr>
      None 10 True 0 None 1 = Inl BadLastsize
   \<and> c2r (\<lambda>i. 0) (example_kernels (\<lambda>i. 0) (\<lambda>i. 0))
      \<lparr>a_dtype = c128, a_shape = [3, 5], a_strides = [80, 16], a_data = CBuf (\<lambda>i. 0)\<rparr>
      None 0 True 0 None 1
     = Inr \<lparr>a_dtype = f64, a_shape = [3, 9], a_strides = [72, 8], a_data = RBuf (\<lambda>i. 0)\<rparr>
   \<and> infer_lastsize 0 5 = 9"
  using c2r_lastsize_contract [of "\<lparr>a_dtype = c128, a_shape = [3, 5], a_strides = [80, 16], a_data = CBuf (\<lambda>i. 0)\<rparr>"
      T_double None "[0, 1]" 5 10 "\<lambda>i. 0" "example_kernels (\<lambda>i. 0) (\<lambda>i. 0)" True 0 None 1]
    c2r_lastsize_contract [of "\<lparr>a_dtype = c128, a_shape = [3, 5], a_strides = [80, 16], a_data = CBuf (\<lambda>i. 0)\<rparr>"
      T_double None "[0, 1]" 5 0 "\<lambda>i. 0" "example_kernels (\<lambda>i. 0) (\<lambda>i. 0)" True 0 None 1]
  by (simp add: eval_defs upt_rec)

text \<open>
  C10. In \<^verbatim>\<open>c2r\<close>, for every length \<open>n \<ge> 1\<close> of the input along the last transformed
  axis (lengths of arrays are below \<open>2 ^ 63\<close>), the value \<open>2 * n - 1\<close> inferred for a
  \<^verbatim>\<open>lastsize\<close> of 0 satisfies \<open>(2 * n - 1) div 2 + 1 = n\<close>, so the bad-lastsize error is
  never raised then; a \<^verbatim>\<open>lastsize\<close> other than 0 passes the test exactly when it is
  \<open>2 * n - 2\<close> or \<open>2 * n - 1\<close>.
\<close>

theorem c2r_inferred_lastsize_consistent:
  assumes "a_dtype arr = Cplx T" and "makeaxes arr axes' = Inr axes" and "axes \<noteq> []"
    and "n = a_shape arr ! last axes" and "1 \<le> n" and "n < 2 ^ 63"
  shows
    "infer_lastsize 0 n = 2 * n - 1
     \<and> (2 * n - 1) div 2 + 1 = n
     \<and> \<not> bad_lastsize (infer_lastsize 0 n) n
     \<and> c2r mem K arr axes' 0 forward inorm out' nthreads \<noteq> Inl BadLastsize
     \<and> (lastsize \<noteq> 0 \<and> lastsize < 2 ^ 64 \<longrightarrow>
          (c2r mem K arr axes' lastsize forward inorm out' nthreads \<noteq> Inl BadLastsize
             \<longleftrightarrow> lastsize = 2 * n - 2 \<or> lastsize = 2 * n - 1))"
proof -
  have disp: "c2r mem K arr axes' ls forward inorm out' nthreads
      = c2r_internal mem K T arr axes' ls forward inorm out' nthreads" for ls
    using assms(1) by (simp add: c2r_def DISPATCH_cplx)
  have bad: "c2r mem K arr axes' ls forward inorm out' nthreads = Inl BadLastsize
      \<longleftrightarrow> bad_lastsize (infer_lastsize ls n) n" for ls
    using c2r_internal_bad_lastsize_iff [OF assms(2,3)] by (simp add: disp assms(4))
  have inf: "infer_lastsize 0 n = 2 * n - 1"
    using assms(5,6) by (rule infer_lastsize_zero)
  have half: "(2 * n - 1) div 2 + 1 = n"
    using assms(5) by arith
  have "2 * n - 1 < 2 ^ 64" using assms(6) by simp
  then have ok0: "\<not> bad_lastsize (infer_lastsize 0 n) n"
    using half by (simp add: inf bad_lastsize_iff)
  have expl: "lastsize \<noteq> 0 \<and> lastsize < 2 ^ 64 \<longrightarrow>
      (c2r mem K arr axes' lastsize forward inorm out' nthreads \<noteq> Inl BadLastsize
         \<longleftrightarrow> lastsize = 2 * n - 2 \<or> lastsize = 2 * n - 1)"
  proof
    assume ls: "lastsize \<noteq> 0 \<and> lastsize < 2 ^ 64"
    then have "bad_lastsize (infer_lastsize lastsize n) n \<longleftrightarrow> lastsize div 2 + 1 \<noteq> n"
      by (simp add: infer_lastsize_def bad_lastsize_iff)
    moreover have "lastsize div 2 + 1 = n \<longleftrightarrow> lastsize = 2 * n - 2 \<or> lastsize = 2 * n - 1"
      using assms(5) ls by arith
    ultimately show "c2r mem K arr axes' lastsize forward inorm out' nthreads \<noteq> Inl BadLastsize
         \<longleftrightarrow> lastsize = 2 * n - 2 \<or> lastsize = 2 * n - 1"
      by (simp add: bad)
  qed
  from inf half ok0 expl show ?thesis by (simp add: bad)
qed

theorem c2r_inferred_lastsize_consistent_witness:
  "c2r (\<lambda>i. 0) (example_kernels (\<lambda>i. 0) (\<lambda>i. 0))
      \<lparr>a_dtype = c64, a_shape = [5], a_strides = [8], a_data = CBuf (\<lambda>i. 0)\<rparr>
      (Some [-1]) 0 False 1 None 1 \<noteq> Inl BadLastsize
   \<and> c2r (\<lambda>i. 0) (example_kernels (\<lambda>i. 0) (\<lambda>i. 0))
      \<lparr>a_dtype = c64, a_shape = [5], a_strides = [8], a_data = CBuf (\<lambda>i. 0)\<rparr>
      (Some [-1]) 8 False 1 None 1 \<noteq> Inl BadLastsize
   \<and> c2r (\<lambda>i. 0) (example_kernels (\<lambda>i. 0) (\<lambda>i. 0))
      \<lparr>a_dtype = c64, a_shape = [5], a_strides = [8], a_data = CBuf (\<lambda>i. 0)\<rparr>
      (Some [-1]) 7 False 1 None 1 = Inl BadLastsize
   \<and> infer_lastsize 0 5 = 9"
  using c2r_inferred_lastsize_consistent [of "\<lparr>a_dtype = c64, a_shape = [5], a_strides = [8], a_data = CBuf (\<lambda>i. 0)\<rparr>"
      T_float "Some [-1]" "[0]" 5 "\<lambda>i. 0" "example_kernels (\<lambda>i. 0) (\<lambda>i. 0)" False 1 None 1 8]
    c2r_inferred_lastsize_consistent [of "\<lparr>a_dtype = c64, a_shape = [5], a_strides = [8], a_data = CBuf (\<lambda>i. 0)\<rparr>"
      T_float "Some [-1]" "[0]" 5 "\<lambda>i. 0" "example_kernels (\<lambda>i. 0) (\<lambda>i. 0)" False 1 None 1 7]
  by (simp add: makeaxes_def ndim_def cast_vector_ptrdiff_def is_ptrdiff_def add_ndim_def)

subsection \<open>\<^verbatim>\<open>r2c\<close>\<close>

lemma prepare_output_shape:
  "prepare_output mem t out' dims = Inr res \<Longrightarrow>
   a_dtype res = t \<and> a_shape res = (case out' of None \<Rightarrow> dims | Some out \<Rightarrow> a_shape out)"
  by (auto simp: prepare_output_def array_t_def split: option.splits if_splits)

text \<open>
  C6 (as the code has it). For a real input array and axes that resolve, \<^verbatim>\<open>r2c\<close> asks
  for an output of the shape of the input with the length \<open>n\<close> of the last axis of the axis
  list replaced by \<open>n div 2 + 1\<close> and no other axis changed. The output it returns has
  that shape when \<^verbatim>\<open>r2c\<close> allocates it; a supplied output array is returned with the
  shape it has. The kernel is called with the shape of the input and with the factor that
  \<^verbatim>\<open>norm_fct\<close> gives for the shape of the input, that is, for the product of the full
  lengths of the transformed axes.
\<close>

theorem r2c_output_shape_and_norm:
  assumes "a_dtype arr = Real T" and "makeaxes arr axes' = Inr axes" and "axes \<noteq> []"
  shows
    "last axes < ndim arr
     \<and> r2c mem K arr axes' forward inorm out' nthreads =
         (case prepare_output mem (Cplx T) out'
                 ((a_shape arr)[last axes := a_shape arr ! last axes div 2 + 1]) of
            Inl e \<Rightarrow> Inl e
          | Inr res \<Rightarrow>
              (case norm_fct_shape inorm (a_shape arr) axes of
                 Inl e \<Rightarrow> Inl e
               | Inr fct \<Rightarrow>
                   (case pocketfft_r2c K (a_shape arr) (copy_strides arr) (copy_strides res)
                           axes forward (a_data arr) (a_data res) fct nthreads of
                      Inl msg \<Rightarrow> Inl (KernelError msg)
                    | Inr d \<Rightarrow> Inr (res\<lparr>a_data := CBuf d\<rparr>))))
     \<and> norm_fct_shape inorm (a_shape arr) axes
         = norm_fct inorm (size_t (\<Prod>a\<leftarrow>axes. int (a_shape arr ! a)))
     \<and> (\<forall>res. r2c mem K arr axes' forward inorm out' nthreads = Inr res \<longrightarrow>
           a_dtype res = Cplx T
           \<and> a_shape res =
               (case out' of
                  None \<Rightarrow> (a_shape arr)[last axes := a_shape arr ! last axes div 2 + 1]
                | Some out \<Rightarrow> a_shape out))"
proof -
  have rng: "list_all (\<lambda>a. a < ndim arr) axes"
    using assms(2) by (rule makeaxes_in_range)
  then have a: "last axes < ndim arr"
    using assms(3) by (simp add: list_all_iff)
  have b: "r2c mem K arr axes' forward inorm out' nthreads =
         (case prepare_output mem (Cplx T) out'
                 ((a_shape arr)[last axes := a_shape arr ! last axes div 2 + 1]) of
            Inl e \<Rightarrow> Inl e
          | Inr res \<Rightarrow>
              (case norm_fct_shape inorm (a_shape arr) axes of
                 Inl e \<Rightarrow> Inl e
               | Inr fct \<Rightarrow>
                   (case pocketfft_r2c K (a_shape arr) (copy_strides arr) (copy_strides res)
                           axes forward (a_data arr) (a_data res) fct nthreads of
                      Inl msg \<Rightarrow> Inl (KernelError msg)
                    | Inr d \<Rightarrow> Inr (res\<lparr>a_data := CBuf d\<rparr>))))"
    using assms
    by (simp add: r2c_def DISPATCH_real r2c_internal_def vec_back_def copy_shape_eq Let_def
        split: sum.splits)
  have c: "norm_fct_shape inorm (a_shape arr) axes
         = norm_fct inorm (size_t (\<Prod>a\<leftarrow>axes. int (a_shape arr ! a)))"
    using rng by (simp add: norm_fct_shape_eq ndim_def)
  have d: "\<forall>res. r2c mem K arr axes' forward inorm out' nthreads = Inr res \<longrightarrow>
           a_dtype res = Cplx T
           \<and> a_shape res =
               (case out' of
                  None \<Rightarrow> (a_shape arr)[last axes := a_shape arr ! last axes div 2 + 1]
                | Some out \<Rightarrow> a_shape out)"
  proof (intro allI impI)
    fix res
    assume "r2c mem K arr axes' forward inorm out' nthreads = Inr res"
    from this [unfolded b] obtain res0 x where
      po: "prepare_output mem (Cplx T) out'
             ((a_shape arr)[last axes := a_shape arr ! last axes div 2 + 1]) = Inr res0"
      and res: "res = res0\<lparr>a_data := x\<rparr>"
      by (auto split: sum.splits)
    from prepare_output_shape [OF po] show "a_dtype res = Cplx T
           \<and> a_shape res =
               (case out' of
                  None \<Rightarrow> (a_shape arr)[last axes := a_shape arr ! last axes div 2 + 1]
                | Some out \<Rightarrow> a_shape out)"
      by (simp add: res)
  qed
  show ?thesis by (rule conjI [OF a conjI [OF b conjI [OF c d]]])
qed

theorem r2c_output_shape_and_norm_witness:
  "makeaxes \<lparr>a_dtype = f64, a_shape = [4, 6], a_strides = [48, 8], a_data = RBuf (\<lambda>i. 0)\<rparr> None
     = Inr [0, 1]
   \<and> r2c (\<lambda>i. 0) (example_kernels (\<lambda>i. 0) (\<lambda>i. 0))
       \<lparr>a_dtype = f64, a_shape = [4, 6], a_strides = [48, 8], a_data = RBuf (\<lambda>i. 0)\<rparr>
       None True 2 None 1
     = Inr \<lparr>a_dtype = c128, a_shape = [4, 4], a_strides = [64, 16], a_data = CBuf (\<lambda>i. 0)\<rparr>
   \<and> norm_fct_shape 2 [4, 6] [0, 1] = Inr (Finite (1 / 24))"
  using r2c_output_shape_and_norm [of
      "\<lparr>a_dtype = f64, a_shape = [4, 6], a_strides = [48, 8], a_data = RBuf (\<lambda>i. 0)\<rparr>"
      T_double None "[0, 1]" "\<lambda>i. 0" "example_kernels (\<lambda>i. 0) (\<lambda>i. 0)" True 2 None 1]
  by (simp add: eval_defs upt_rec)

text \<open>
  C6 as stated gives the halved shape to the output of every call. \<^verbatim>\<open>r2c\<close> of a
  \<^verbatim>\<open>float64\<close> array of shape \<open>[4, 6]\<close> over both axes requires the shape \<open>[4, 4]\<close>;
  given a \<^verbatim>\<open>complex128\<close> array of shape \<open>[4, 6]\<close> as output, it returns an array of
  shape \<open>[4, 6]\<close>.
\<close>

theorem r2c_supplied_output_shape_counterexample:
  "map_sum id a_shape
     (r2c (\<lambda>i. 0) (example_kernels (\<lambda>i. 0) (\<lambda>i. 0))
        \<lparr>a_dtype = f64, a_shape = [4, 6], a_strides = [48, 8], a_data = RBuf (\<lambda>i. 0)\<rparr>
        None True 0
        (Some \<lparr>a_dtype = c128, a_shape = [4, 6], a_strides = [96, 16],
               a_data = CBuf (\<lambda>i. 0)\<rparr>) 1)
     = Inr [4, 6]
   \<and> map_sum id a_shape
     (r2c (\<lambda>i. 0) (example_kernels (\<lambda>i. 0) (\<lambda>i. 0))
        \<lparr>a_dtype = f64, a_shape = [4, 6], a_strides = [48, 8], a_data = RBuf (\<lambda>i. 0)\<rparr>
        None True 0 None 1)
     = Inr [4, 4]"
  by (simp add: eval_defs upt_rec)

subsection \<open>The output array\<close>

lemma DISPATCH_real_Inr:
  assumes "DISPATCH arr f64 f32 flong func = Inr res"
  shows "\<exists>T. a_dtype arr = Real T \<and> func T = Inr res"
  using assms by (auto simp: DISPATCH_def split: if_splits)

lemma DISPATCH_cplx_Inr:
  assumes "DISPATCH arr c128 c64 clong func = Inr res"
  shows "\<exists>T. a_dtype arr = Cplx T \<and> func T = Inr res"
  using assms by (auto simp: DISPATCH_def split: if_splits)

lemma prepare_output_Some:
  "prepare_output mem t (Some out) dims = Inr res \<Longrightarrow> a_dtype out = t \<and> res = out"
  by (auto simp: prepare_output_def split: if_splits)

lemma c2c_internal_reuse:
  assumes "c2c_internal mem K T arr axes' forward inorm (Some out) nthreads = Inr res"
  shows "a_dtype out = Cplx T \<and> (\<exists>d. res = out\<lparr>a_data := d\<rparr>)"
proof -
  from assms obtain r0 d where "prepare_output mem (Cplx T) (Some out) (copy_shape arr) = Inr r0"
    and "res = r0\<lparr>a_data := d\<rparr>"
    by (auto simp: c2c_internal_def Let_def split: sum.splits)
  then show ?thesis by (auto dest: prepare_output_Some)
qed

lemma c2c_sym_internal_reuse:
  assumes "c2c_sym_internal mem K T arr axes' forward inorm (Some out) nthreads = Inr res"
  shows "a_dtype out = Cplx T \<and> (\<exists>d. res = out\<lparr>a_data := d\<rparr>)"
proof -
  from assms obtain r0 d where "prepare_output mem (Cplx T) (Some out) (copy_shape arr) = Inr r0"
    and "res = r0\<lparr>a_data := d\<rparr>"
    by (auto simp: c2c_sym_internal_def Let_def split: sum.splits)
  then show ?thesis by (auto dest: prepare_output_Some)
qed

lemma r2c_internal_reuse:
  assumes "r2c_internal mem K T arr axes' forward inorm (Some out) nthreads = Inr res"
  shows "a_dtype out = Cplx T \<and> (\<exists>d. res = out\<lparr>a_data := d\<rparr>)"
proof -
  from assms obtain r0 d dims where "prepare_output mem (Cplx T) (Some out) dims = Inr r0"
    and "res = r0\<lparr>a_data := d\<rparr>"
    by (auto simp: r2c_internal_def Let_def split: sum.splits)
  then show ?thesis by (auto dest: prepare_output_Some)
qed

lemma r2r_fftpack_internal_reuse:
  assumes "r2r_fftpack_internal mem K T arr axes' r2h forward inorm (Some out) nthreads = Inr res"
  shows "a_dtype out = Real T \<and> (\<exists>d. res = out\<lparr>a_data := d\<rparr>)"
proof -
  from assms obtain r0 d dims where "prepare_output mem (Real T) (Some out) dims = Inr r0"
    and "res = r0\<lparr>a_data := d\<rparr>"
    by (auto simp: r2r_fftpack_internal_def Let_def split: sum.splits)
  then show ?thesis by (auto dest: prepare_output_Some)
qed

lemma c2r_internal_reuse:
  assumes "c2r_internal mem K T arr axes' lastsize forward inorm (Some out) nthreads = Inr res"
  shows "a_dtype out = Real T \<and> (\<exists>d. res = out\<lparr>a_data := d\<rparr>)"
proof -
  from assms obtain r0 d dims where "prepare_output mem (Real T) (Some out) dims = Inr r0"
    and "res = r0\<lparr>a_data := d\<rparr>"
    by (auto simp: c2r_internal_def Let_def split: sum.splits if_splits)
  then show ?thesis by (auto dest: prepare_output_Some)
qed

lemma separable_hartley_internal_reuse:
  assumes "separable_hartley_internal mem K T arr axes' inorm (Some out) nthreads = Inr res"
  shows "a_dtype out = Real T \<and> (\<exists>d. res = out\<lparr>a_data := d\<rparr>)"
proof -
  from assms obtain r0 d dims where "prepare_output mem (Real T) (Some out) dims = Inr r0"
    and "res = r0\<lparr>a_data := d\<rparr>"
    by (auto simp: separable_hartley_internal_def Let_def split: sum.splits)
  then show ?thesis by (auto dest: prepare_output_Some)
qed

lemma complex2hartley_reuse:
  assumes "complex2hartley mem T arr tmp axes' (Some out) = Inr res"
  shows "a_dtype out = Real T \<and> (\<exists>d. res = out\<lparr>a_data := d\<rparr>)"
proof -
  from assms obtain r0 d dims where "prepare_output mem (Real T) (Some out) dims = Inr r0"
    and "res = r0\<lparr>a_data := d\<rparr>"
    by (auto simp: complex2hartley_def Let_def split: sum.splits if_splits)
  then show ?thesis by (auto dest: prepare_output_Some)
qed

text \<open>
  C8 (as the code has it). Without a supplied output array \<^verbatim>\<open>prepare_output\<close> gives a
  new C-contiguous array of exactly the required shape and element type; its elements
  are what the allocated memory holds.
\<close>

theorem prepare_output_allocates:
  "prepare_output mem t None dims = Inr (array_t mem t dims)
   \<and> a_shape (array_t mem t dims) = dims
   \<and> a_dtype (array_t mem t dims) = t
   \<and> a_strides (array_t mem t dims) = c_strides dims (itemsize t)
   \<and> a_data (array_t mem t dims) = (if kind_is_c t then CBuf mem else RBuf (\<lambda>i. Re (mem i)))"
  by (simp add: prepare_output_def array_t_def)

theorem prepare_output_allocates_witness:
  "prepare_output (\<lambda>i. 5) f32 None [2, 3]
     = Inr \<lparr>a_dtype = f32, a_shape = [2, 3], a_strides = [12, 4], a_data = RBuf (\<lambda>i. 5)\<rparr>"
  using prepare_output_allocates [of "\<lambda>i. 5" f32 "[2, 3]"]
  by (simp add: array_t_def itemsize_def)

text \<open>
  C8 as stated has every element of the new array read as zero. On memory that
  holds ones, the new array reads 1 at offset 0.
\<close>

theorem prepare_output_not_zeroed_counterexample:
  "prepare_output (\<lambda>i. 1) f64 None [2]
     = Inr \<lparr>a_dtype = f64, a_shape = [2], a_strides = [8], a_data = RBuf (\<lambda>i. 1)\<rparr>
   \<and> buffer_at (a_data \<lparr>a_dtype = f64, a_shape = [2], a_strides = [8],
                          a_data = RBuf (\<lambda>i. 1)\<rparr>) 0 = 1"
  by (simp add: prepare_output_def array_t_def itemsize_def)

subsection \<open>Default arguments\<close>

lemma bind_five:
  "f \<in> set [''c2c'', ''r2c'', ''c2r'', ''separable_hartley'', ''genuine_hartley''] \<Longrightarrow>
   \<exists>bound. bind_call f [a] [] = Inr bound \<and> map_of bound ''axes'' = Some PyNone"
  by (auto simp: bind_call_def module_defs_def)

lemma bind_forward:
  "f \<in> set [''c2c'', ''r2c'', ''c2r''] \<Longrightarrow>
   \<exists>bound. bind_call f [a] [] = Inr bound \<and> map_of bound ''forward'' = Some (PyBool True)"
  by (auto simp: bind_call_def module_defs_def)

lemma bind_hartley_no_forward:
  "f \<in> set [''separable_hartley'', ''genuine_hartley''] \<Longrightarrow>
   \<exists>args. map_of module_defs f = Some args \<and> map_of args ''forward'' = None"
  by (auto simp: module_defs_def)

lemma bind_fftpack_missing:
  "map_of kw ''axes'' = None \<or> map_of kw ''real2hermitian'' = None \<or> map_of kw ''forward'' = None
   \<Longrightarrow> bind_call ''r2r_fftpack'' [a] kw = Inl TypeError"
  by (auto simp: bind_call_def module_defs_def split: option.splits sum.splits)

lemma bind_fftpack_given:
  "\<exists>bound. bind_call ''r2r_fftpack'' [a]
        [(''axes'', PyNone), (''real2hermitian'', rh), (''forward'', fw)] = Inr bound
      \<and> map_of bound ''axes'' = Some PyNone"
  by (simp add: bind_call_def module_defs_def)

text \<open>
  C9 (as the code has it). \<^verbatim>\<open>c2c\<close>, \<^verbatim>\<open>r2c\<close>, \<^verbatim>\<open>c2r\<close>, \<^verbatim>\<open>separable_hartley\<close> and
  \<^verbatim>\<open>genuine_hartley\<close> take \<^verbatim>\<open>axes\<close> as an optional argument whose default is \<open>None\<close>,
  for which \<^verbatim>\<open>makeaxes\<close> gives all axes in ascending order; \<^verbatim>\<open>c2c\<close>, \<^verbatim>\<open>r2c\<close> and
  \<^verbatim>\<open>c2r\<close> take \<^verbatim>\<open>forward\<close> with the default true, and the two Hartley transforms have
  no such argument. \<^verbatim>\<open>r2r_fftpack\<close> declares \<^verbatim>\<open>axes\<close>, \<^verbatim>\<open>real2hermitian\<close> and
  \<^verbatim>\<open>forward\<close> without a default: a call that leaves one of them out fails, and a call
  that passes them (\<open>None\<close> for the axes included) is bound.
\<close>

theorem default_arguments:
  "(\<forall>f \<in> set [''c2c'', ''r2c'', ''c2r'', ''separable_hartley'', ''genuine_hartley''].
      \<exists>bound. bind_call f [a] [] = Inr bound \<and> map_of bound ''axes'' = Some PyNone)
   \<and> (\<forall>f \<in> set [''c2c'', ''r2c'', ''c2r''].
      \<exists>bound. bind_call f [a] [] = Inr bound \<and> map_of bound ''forward'' = Some (PyBool True))
   \<and> (\<forall>f \<in> set [''separable_hartley'', ''genuine_hartley''].
      \<exists>args. map_of module_defs f = Some args \<and> map_of args ''forward'' = None)
   \<and> (map_of kw ''axes'' = None \<or> map_of kw ''real2hermitian'' = None
        \<or> map_of kw ''forward'' = None
      \<longrightarrow> bind_call ''r2r_fftpack'' [a] kw = Inl TypeError)
   \<and> (\<exists>bound. bind_call ''r2r_fftpack'' [a]
          [(''axes'', PyNone), (''real2hermitian'', rh), (''forward'', fw)] = Inr bound
        \<and> map_of bound ''axes'' = Some PyNone)
   \<and> makeaxes arr None = Inr [0..<ndim arr]"
proof -
  have "makeaxes arr None = Inr [0..<ndim arr]"
    by (simp add: makeaxes_def)
  with bind_five bind_forward bind_hartley_no_forward bind_fftpack_missing bind_fftpack_given
  show ?thesis by blast
qed

theorem default_arguments_witness:
  "bind_call ''c2r''
     [PyArray \<lparr>a_dtype = c128, a_shape = [4], a_strides = [16], a_data = CBuf (\<lambda>i. 0)\<rparr>] []
     = Inr [(''a'', PyArray \<lparr>a_dtype = c128, a_shape = [4], a_strides = [16],
                               a_data = CBuf (\<lambda>i. 0)\<rparr>),
            (''axes'', PyNone), (''lastsize'', PyInt 0), (''forward'', PyBool True),
            (''inorm'', PyInt 0), (''out'', PyNone), (''nthreads'', PyInt 1)]
   \<and> bind_call ''r2r_fftpack''
     [PyArray \<lparr>a_dtype = c128, a_shape = [4], a_strides = [16], a_data = CBuf (\<lambda>i. 0)\<rparr>]
     [(''axes'', PyNone), (''forward'', PyBool True)]
     = Inl TypeError"
  using default_arguments [of
      "PyArray \<lparr>a_dtype = c128, a_shape = [4], a_strides = [16], a_data = CBuf (\<lambda>i. 0)\<rparr>"
      "[(''axes'', PyNone), (''forward'', PyBool True)]"]
  by (simp add: bind_call_def module_defs_def)

text \<open>
  C9 as stated has \<^verbatim>\<open>axes\<close> optional and \<^verbatim>\<open>forward\<close> true by default in every one of
  the six operations. \<^verbatim>\<open>r2r_fftpack\<close> gives neither a default: a call with the array and
  \<^verbatim>\<open>real2hermitian\<close> alone is refused, and so is a call that leaves out \<^verbatim>\<open>forward\<close>.
\<close>

theorem r2r_fftpack_axes_mandatory_counterexample:
  "map_of module_defs ''r2r_fftpack''
     = Some [(''a'', None), (''axes'', None), (''real2hermitian'', None), (''forward'', None),
             (''inorm'', Some (PyInt 0)), (''out'', Some PyNone), (''nthreads'', Some (PyInt 1))]
   \<and> bind_call ''r2r_fftpack''
       [PyArray \<lparr>a_dtype = f64, a_shape = [4], a_strides = [8], a_data = RBuf (\<lambda>i. 0)\<rparr>]
       [(''real2hermitian'', PyBool True)]
     = Inl TypeError
   \<and> bind_call ''r2r_fftpack''
       [PyArray \<lparr>a_dtype = f64, a_shape = [4], a_strides = [8], a_data = RBuf (\<lambda>i. 0)\<rparr>,
        PyNone, PyBool True] []
     = Inl TypeError"
  by (simp add: bind_call_def module_defs_def)

subsection \<open>The iterators\<close>

lemma length_decode: "length (decode shp k) = length shp"
  by (induction shp arbitrary: k) auto

lemma decode_zero: "decode shp 0 = replicate (length shp) 0"
  by (induction shp) auto






lemma next_pos_decode:
  "k < prod_list shp \<Longrightarrow>
   next_pos shp (decode shp k) =
     (if Suc k < prod_list shp then (False, decode shp (Suc k))
      else (True, replicate (length shp) 0))"
proof (induction shp arbitrary: k)
  case Nil
  then show ?case by simp
next
  case (Cons n ns)
  let ?P = "prod_list ns"
  from Cons.prems have pos: "0 < ?P"
    by (cases "?P = 0") auto
  then have m: "k mod ?P < ?P" by simp
  note ih = Cons.IH [OF m]
  from Cons.prems have q: "k div ?P < n"
    by (simp add: less_mult_imp_div_less mult.commute)
  show ?case
  proof (cases "Suc (k mod ?P) < ?P")
    case True
    then have "Suc k div ?P = k div ?P" and "Suc k mod ?P = Suc (k mod ?P)"
      by (simp_all add: div_Suc mod_Suc)
    moreover have "Suc k < n * ?P"
    proof -
      have kk: "k div ?P * ?P + k mod ?P = k" by simp
      have "Suc k < k div ?P * ?P + ?P" using True kk by linarith
      also have "\<dots> = Suc (k div ?P) * ?P" by simp
      also have "\<dots> \<le> n * ?P" using q by (intro mult_le_mono1) simp
      finally show ?thesis .
    qed
    ultimately show ?thesis using ih True by simp
  next
    case False
    with m have eq: "Suc (k mod ?P) = ?P" by simp
    then have d: "Suc k div ?P = Suc (k div ?P)" and r: "Suc k mod ?P = 0"
      by (simp_all add: div_Suc mod_Suc)
    have sk: "Suc k = Suc (k div ?P) * ?P"
      using d r by (metis add.right_neutral div_mult_mod_eq)
    show ?thesis
    proof (cases "Suc (k div ?P) < n")
      case True
      then have "Suc k < n * ?P"
        using pos sk by (metis mult_less_mono1)
      then show ?thesis using ih False True d r by (simp add: decode_zero)
    next
      case False
      with q have "Suc (k div ?P) = n" by simp
      then have "\<not> Suc k < n * ?P" using sk by simp
      then show ?thesis using ih \<open>\<not> Suc (k mod ?P) < ?P\<close> False by simp
    qed
  qed
qed

lemma ri_advance_fields [simp]:
  "ri_shape (ri_advance it) = ri_shape it"
  "ri_stride (ri_advance it) = ri_stride it"
  "ri_rev_axis (ri_advance it) = ri_rev_axis it"
  "ri_shp (ri_advance it) = ri_shp it"
  "ri_rem (ri_advance it) = ri_rem it - 1"
  "ri_pos (ri_advance it) = snd (next_pos (ri_shp it) (ri_pos it))"
  by (simp_all add: ri_advance_def)

lemma si_advance_fields [simp]:
  "si_shape (si_advance it) = si_shape it"
  "si_stride (si_advance it) = si_stride it"
  "si_rem (si_advance it) = si_rem it - 1"
  "si_pos (si_advance it) = snd (next_pos (si_shape it) (si_pos it))"
  by (simp_all add: si_advance_def)


lemma hartley_loop_fold:
  assumes "k \<le> prod_list (si_shape iin)"
    and "si_rem iin = prod_list (si_shape iin) - k"
    and "k < prod_list (si_shape iin) \<longrightarrow> si_pos iin = decode (si_shape iin) k"
    and "prod_list (ri_shp iout) = prod_list (si_shape iin)"
    and "k < prod_list (si_shape iin) \<longrightarrow> ri_pos iout = decode (ri_shp iout) k"
  shows "hartley_loop atmp iin iout aout =
         foldl (hartley_step atmp (si_stride iin) (ri_rev_axis iout) (ri_shape iout)
                  (ri_stride iout)) aout
           (zip (map (decode (si_shape iin)) [k..<prod_list (si_shape iin)])
                (map (decode (ri_shp iout)) [k..<prod_list (si_shape iin)]))"
  using assms
proof (induction "prod_list (si_shape iin) - k" arbitrary: iin iout aout k)
  case 0
  then have "si_rem iin = 0" and "k = prod_list (si_shape iin)" by simp_all
  then show ?case by (simp add: hartley_loop.simps [of atmp iin iout aout])
next
  case (Suc d)
  let ?n = "prod_list (si_shape iin)"
  from Suc.hyps(2) have lt: "k < ?n" by simp
  with Suc.prems have pos: "si_pos iin = decode (si_shape iin) k"
    and rpos: "ri_pos iout = decode (ri_shp iout) k" and rem: "0 < si_rem iin"
    by simp_all
  from lt Suc.prems(4) have rlt: "k < prod_list (ri_shp iout)" by simp
  let ?a = "hartley_step atmp (si_stride iin) (ri_rev_axis iout) (ri_shape iout)
              (ri_stride iout) aout (decode (si_shape iin) k, decode (ri_shp iout) k)"
  have step: "hartley_loop atmp iin iout aout
      = hartley_loop atmp (si_advance iin) (ri_advance iout) ?a"
    using rem
    by (simp add: hartley_loop.simps [of atmp iin iout aout] Let_def hartley_step_def
        si_ofs_def ri_ofs_def ri_rev_ofs_def pos rpos)
  have "hartley_loop atmp (si_advance iin) (ri_advance iout) ?a =
        foldl (hartley_step atmp (si_stride (si_advance iin)) (ri_rev_axis (ri_advance iout))
                 (ri_shape (ri_advance iout)) (ri_stride (ri_advance iout))) ?a
          (zip (map (decode (si_shape (si_advance iin)))
                  [Suc k..<prod_list (si_shape (si_advance iin))])
               (map (decode (ri_shp (ri_advance iout)))
                  [Suc k..<prod_list (si_shape (si_advance iin))]))"
  proof (rule Suc.hyps(1))
    show "d = prod_list (si_shape (si_advance iin)) - Suc k" using Suc.hyps(2) by simp
    show "Suc k \<le> prod_list (si_shape (si_advance iin))" using lt by simp
    show "si_rem (si_advance iin) = prod_list (si_shape (si_advance iin)) - Suc k"
      using Suc.prems(2) by simp
    show "Suc k < prod_list (si_shape (si_advance iin)) \<longrightarrow>
          si_pos (si_advance iin) = decode (si_shape (si_advance iin)) (Suc k)"
      using lt by (simp add: pos next_pos_decode)
    show "prod_list (ri_shp (ri_advance iout)) = prod_list (si_shape (si_advance iin))"
      using Suc.prems(4) by simp
    show "Suc k < prod_list (si_shape (si_advance iin)) \<longrightarrow>
          ri_pos (ri_advance iout) = decode (ri_shp (ri_advance iout)) (Suc k)"
      using rlt Suc.prems(4) by (simp add: rpos next_pos_decode)
  qed
  moreover have "[k..<?n] = k # [Suc k..<?n]" using lt by (rule upt_conv_Cons)
  ultimately show ?case using step by simp
qed











lemma length_forward_half [simp]: "length (forward_half shp axes) = length shp"
  by (simp add: forward_half_def)


lemma hartley_loop_new:
  assumes "rev_iter_new shp str axes = Inr iout"
    and "si_rem (simple_iter_new shp_t str_t) = ri_rem iout"
  shows "hartley_loop atmp (simple_iter_new shp_t str_t) iout aout =
         foldl (hartley_step atmp str_t (rev_axes (length shp) axes) shp str) aout
           (zip (positions shp_t) (positions (forward_half shp axes)))"
proof -
  from assms(1) have it: "iout = \<lparr>ri_shape = shp, ri_stride = str,
      ri_rev_axis = rev_axes (length shp) axes, ri_shp = forward_half shp axes,
      ri_pos = replicate (length shp) 0, ri_rem = prod_list (forward_half shp axes)\<rparr>"
    by (auto simp: rev_iter_new_def vec_back_def split: if_splits)
  let ?iin = "simple_iter_new shp_t str_t"
  from assms(2) have eq: "prod_list (forward_half shp axes) = prod_list shp_t"
    by (simp add: it simple_iter_new_def)
  have "hartley_loop atmp ?iin iout aout =
         foldl (hartley_step atmp (si_stride ?iin) (ri_rev_axis iout) (ri_shape iout)
                  (ri_stride iout)) aout
           (zip (map (decode (si_shape ?iin)) [0..<prod_list (si_shape ?iin)])
                (map (decode (ri_shp iout)) [0..<prod_list (si_shape ?iin)]))"
    by (rule hartley_loop_fold)
      (simp_all add: it simple_iter_new_def decode_zero eq)
  then show ?thesis by (simp add: it simple_iter_new_def positions_def eq)
qed

subsection \<open>The symmetry pass\<close>




lemma length_c_strides [simp]: "length (c_strides dims sz) = length dims"
  by (induction dims) auto

lemma copy_strides_eq: "length (a_strides arr) = ndim arr \<Longrightarrow> copy_strides arr = a_strides arr"
  unfolding copy_strides_def by (metis map_nth)

lemma copy_strides_array_t [simp]:
  "copy_strides (array_t mem t dims) = c_strides dims (itemsize t)"
  by (rule trans [OF copy_strides_eq]) (simp_all add: array_t_def ndim_def)




lemma array_t_fields [simp]:
  "a_dtype (array_t mem t dims) = t"
  "a_shape (array_t mem t dims) = dims"
  "a_strides (array_t mem t dims) = c_strides dims (itemsize t)"
  "a_data (array_t mem t dims) = (if kind_is_c t then CBuf mem else RBuf (\<lambda>i. Re (mem i)))"
  by (simp_all add: array_t_def)



lemma copy_strides_update_data [simp]:
  "copy_strides (res\<lparr>a_data := x\<rparr>) = copy_strides res"
  by (simp add: copy_strides_def ndim_def)




subsection \<open>The Hartley pass\<close>

lemma complex2hartley_eq:
  assumes "makeaxes a axes' = Inr axes"
    and "complex_view (a_data tmp) = Inr atmp"
    and "prepare_output mem (Real T) out' (a_shape a) = Inr out"
    and "real_view (a_data out) = Inr aout"
    and "rev_iter_new (copy_shape out) (copy_strides out) axes = Inr iout"
  shows "complex2hartley mem T a tmp axes' out' =
           (if si_rem (simple_iter_new (copy_shape tmp) (copy_strides tmp)) \<noteq> ri_rem iout
            then Inl IteratorCountMismatch
            else Inr (out\<lparr>a_data := RBuf
                   (foldl (hartley_step atmp (copy_strides tmp) (rev_axes (ndim out) axes)
                             (copy_shape out) (copy_strides out)) aout
                      (zip (positions (copy_shape tmp))
                           (positions (forward_half (copy_shape out) axes))))\<rparr>))"
proof (cases "si_rem (simple_iter_new (copy_shape tmp) (copy_strides tmp)) = ri_rem iout")
  case True
  from hartley_loop_new [OF assms(5) True, of atmp aout] True assms show ?thesis
    by (simp add: complex2hartley_def copy_shape_eq Let_def ndim_def)
next
  case False
  with assms show ?thesis
    by (simp add: complex2hartley_def copy_shape_eq Let_def)
qed

lemma iterator_counts:
  "si_rem (simple_iter_new shp str) = prod_list shp"
  "rev_iter_new shp str axes = Inr iout \<Longrightarrow> ri_rem iout = prod_list (forward_half shp axes)"
  by (auto simp: simple_iter_new_def rev_iter_new_def vec_back_def split: if_splits)

text \<open>
  C2. For a real input array whose axes resolve, \<^verbatim>\<open>genuine_hartley\<close> is \<^verbatim>\<open>r2c\<close> with
  \<^verbatim>\<open>forward = true\<close> over the same axes and a new output, followed by
  \<^verbatim>\<open>complex2hartley\<close>. That pass fails with the internal-consistency error when the
  count of the forward iterator over the spectrum differs from the count of the mirror
  iterator over the output; otherwise it walks the positions of the spectrum and the
  positions of the forward half of the output in lock-step and, with \<open>v\<close> the element of
  the spectrum, writes \<open>Re v + Im v\<close> at the forward offset of the output and \<open>Re v - Im v\<close>
  at the mirror offset. With the output it allocates itself the counts agree, so the
  composition returns whenever \<^verbatim>\<open>r2c\<close> does.
\<close>

theorem genuine_hartley_composition:
  assumes "a_dtype a = Real T" and "makeaxes a axes' = Inr axes" and "axes \<noteq> []"
  shows
    "genuine_hartley mem K a axes' inorm out' nthreads =
       (case r2c mem K a axes' True inorm None nthreads of
          Inl e \<Rightarrow> Inl e
        | Inr tmp \<Rightarrow> complex2hartley mem T a tmp axes' out')
     \<and> (complex_view (a_data tmp) = Inr atmp
         \<and> prepare_output mem (Real T) out' (a_shape a) = Inr out
         \<and> real_view (a_data out) = Inr aout
         \<and> rev_iter_new (copy_shape out) (copy_strides out) axes = Inr iout \<longrightarrow>
           si_rem (simple_iter_new (copy_shape tmp) (copy_strides tmp)) = prod_list (a_shape tmp)
           \<and> ri_rem iout = prod_list (forward_half (a_shape out) axes)
           \<and> complex2hartley mem T a tmp axes' out' =
               (if si_rem (simple_iter_new (copy_shape tmp) (copy_strides tmp)) \<noteq> ri_rem iout
                then Inl IteratorCountMismatch
                else Inr (out\<lparr>a_data := RBuf
                       (foldl (hartley_step atmp (copy_strides tmp) (rev_axes (ndim out) axes)
                                 (copy_shape out) (copy_strides out)) aout
                          (zip (positions (copy_shape tmp))
                               (positions (forward_half (copy_shape out) axes))))\<rparr>)))
     \<and> (\<forall>tmp. r2c mem K a axes' True inorm None nthreads = Inr tmp \<longrightarrow>
           (\<exists>d. a_data tmp = CBuf d
                \<and> a_shape tmp = forward_half (a_shape a) axes
                \<and> genuine_hartley mem K a axes' inorm None nthreads =
                    Inr ((array_t mem (Real T) (a_shape a))\<lparr>a_data := RBuf
                       (foldl (hartley_step d (a_strides tmp) (rev_axes (ndim a) axes)
                                 (a_shape a) (c_strides (a_shape a) (itemsize (Real T))))
                          (\<lambda>i. Re (mem i))
                          (zip (positions (forward_half (a_shape a) axes))
                               (positions (forward_half (a_shape a) axes))))\<rparr>)))"
proof -
  have one: "genuine_hartley mem K a axes' inorm out1 nthreads =
       (case r2c mem K a axes' True inorm None nthreads of
          Inl e \<Rightarrow> Inl e
        | Inr tmp \<Rightarrow> complex2hartley mem T a tmp axes' out1)" for out1
    using assms(1) by (simp add: genuine_hartley_def DISPATCH_real split: sum.splits)
  have two: "complex_view (a_data tmp) = Inr atmp
         \<and> prepare_output mem (Real T) out' (a_shape a) = Inr out
         \<and> real_view (a_data out) = Inr aout
         \<and> rev_iter_new (copy_shape out) (copy_strides out) axes = Inr iout \<longrightarrow>
           si_rem (simple_iter_new (copy_shape tmp) (copy_strides tmp)) = prod_list (a_shape tmp)
           \<and> ri_rem iout = prod_list (forward_half (a_shape out) axes)
           \<and> complex2hartley mem T a tmp axes' out' =
               (if si_rem (simple_iter_new (copy_shape tmp) (copy_strides tmp)) \<noteq> ri_rem iout
                then Inl IteratorCountMismatch
                else Inr (out\<lparr>a_data := RBuf
                       (foldl (hartley_step atmp (copy_strides tmp) (rev_axes (ndim out) axes)
                                 (copy_shape out) (copy_strides out)) aout
                          (zip (positions (copy_shape tmp))
                               (positions (forward_half (copy_shape out) axes))))\<rparr>))"
    using complex2hartley_eq [OF assms(2), of tmp atmp mem T out' out aout iout]
      iterator_counts(2) [of "copy_shape out" "copy_strides out" axes iout]
    by (simp add: iterator_counts(1) copy_shape_eq)
  have three: "\<exists>d. a_data tmp = CBuf d
                \<and> a_shape tmp = forward_half (a_shape a) axes
                \<and> genuine_hartley mem K a axes' inorm None nthreads =
                    Inr ((array_t mem (Real T) (a_shape a))\<lparr>a_data := RBuf
                       (foldl (hartley_step d (a_strides tmp) (rev_axes (ndim a) axes)
                                 (a_shape a) (c_strides (a_shape a) (itemsize (Real T))))
                          (\<lambda>i. Re (mem i))
                          (zip (positions (forward_half (a_shape a) axes))
                               (positions (forward_half (a_shape a) axes))))\<rparr>)"
    if r: "r2c mem K a axes' True inorm None nthreads = Inr tmp" for tmp
  proof -
    let ?half = "forward_half (a_shape a) axes"
    from r assms obtain d where tmp: "tmp = (array_t mem (Cplx T) ?half)\<lparr>a_data := CBuf d\<rparr>"
      by (auto simp: r2c_def DISPATCH_real r2c_internal_def vec_back_def copy_shape_eq Let_def
            prepare_output_def forward_half_def split: sum.splits)
    let ?out = "array_t mem (Real T) (a_shape a)"
    have cs: "copy_strides tmp = a_strides tmp"
      by (rule copy_strides_eq) (simp add: tmp ndim_def)
    have sh: "a_shape tmp = ?half" by (simp add: tmp)
    have it: "rev_iter_new (copy_shape ?out) (copy_strides ?out) axes = Inr
      \<lparr>ri_shape = a_shape a, ri_stride = c_strides (a_shape a) (itemsize (Real T)),
       ri_rev_axis = rev_axes (length (a_shape a)) axes,
       ri_shp = ?half, ri_pos = replicate (length (a_shape a)) 0,
       ri_rem = prod_list ?half\<rparr>"
      using assms(3) by (simp add: rev_iter_new_def vec_back_def copy_shape_eq)
    have "complex2hartley mem T a tmp axes' None =
        Inr (?out\<lparr>a_data := RBuf
                   (foldl (hartley_step d (copy_strides tmp) (rev_axes (ndim ?out) axes)
                             (copy_shape ?out) (copy_strides ?out)) (\<lambda>i. Re (mem i))
                      (zip (positions (copy_shape tmp))
                           (positions (forward_half (copy_shape ?out) axes))))\<rparr>)"
      using complex2hartley_eq [OF assms(2), of tmp d mem T None ?out "\<lambda>i. Re (mem i)", OF _ _ _ it]
      by (simp add: tmp prepare_output_def simple_iter_new_def copy_shape_eq)
    then have "genuine_hartley mem K a axes' inorm None nthreads =
                    Inr (?out\<lparr>a_data := RBuf
                       (foldl (hartley_step d (a_strides tmp) (rev_axes (ndim a) axes)
                                 (a_shape a) (c_strides (a_shape a) (itemsize (Real T))))
                          (\<lambda>i. Re (mem i))
                          (zip (positions ?half) (positions ?half)))\<rparr>)"
      by (simp add: one r cs copy_shape_eq sh ndim_def)
    then show ?thesis using sh by (auto simp: tmp)
  qed
  from one [of out'] two three show ?thesis by blast
qed

theorem genuine_hartley_composition_witness:
  "map_sum id (\<lambda>res. (a_dtype res, a_shape res, buffer_at (a_data res) 8,
                        buffer_at (a_data res) 24))
     (genuine_hartley (\<lambda>i. 0)
        (example_kernels (\<lambda>i. if i = 16 then Complex 1 2 else 7) (\<lambda>i. 0))
        \<lparr>a_dtype = f64, a_shape = [4], a_strides = [8], a_data = RBuf (\<lambda>i. 0)\<rparr>
        None 0 None 1)
     = Inr (f64, [4], 3, - 1)
   \<and> complex2hartley (\<lambda>i. 0) T_double
       \<lparr>a_dtype = f64, a_shape = [4], a_strides = [8], a_data = RBuf (\<lambda>i. 0)\<rparr>
       \<lparr>a_dtype = c128, a_shape = [2], a_strides = [16], a_data = CBuf (\<lambda>i. 7)\<rparr>
       None None
     = Inl IteratorCountMismatch"
proof -
  let ?A = "\<lparr>a_dtype = f64, a_shape = [4], a_strides = [8], a_data = RBuf (\<lambda>i. 0)\<rparr>"
  let ?d = "\<lambda>i::int. if i = 16 then Complex 1 2 else 7"
  let ?K = "example_kernels ?d (\<lambda>i. 0)"
  let ?tmp = "\<lparr>a_dtype = c128, a_shape = [3], a_strides = [16], a_data = CBuf ?d\<rparr>"
  let ?tmp2 = "\<lparr>a_dtype = c128, a_shape = [2], a_strides = [16], a_data = CBuf (\<lambda>i. 7)\<rparr>"
  let ?out = "\<lparr>a_dtype = f64, a_shape = [4], a_strides = [8], a_data = RBuf (\<lambda>i. 0)\<rparr>"
  let ?iout = "\<lparr>ri_shape = [4], ri_stride = [8], ri_rev_axis = [True], ri_shp = [3],
      ri_pos = [0], ri_rem = 3\<rparr>"
  have h1: "a_dtype ?A = Real T_double" by simp
  have h2: "makeaxes ?A None = Inr [0]" by (simp add: makeaxes_def ndim_def)
  have h3: "[0::nat] \<noteq> []" by simp
  note t = genuine_hartley_composition [OF h1 h2 h3, where mem = "\<lambda>i. 0" and inorm = 0
      and nthreads = 1 and out' = None]
  have pos3: "positions [3] = [[0], [1], [2]]"
    by (simp add: positions_def upt_rec)
  have half: "forward_half [4] [0] = [3]" by (simp add: forward_half_def)
  have ra: "rev_axes (Suc 0) [0] = [True]" by (simp add: rev_axes_def)
  have r: "r2c (\<lambda>i. 0) ?K ?A None True 0 None 1 = Inr ?tmp"
    by (simp add: eval_defs upt_rec)
  from t [where K = ?K, THEN conjunct2, THEN conjunct2, rule_format, OF r]
  have "genuine_hartley (\<lambda>i. 0) ?K ?A None 0 None 1 =
      Inr ((array_t (\<lambda>i. 0) f64 [4])\<lparr>a_data := RBuf
             (foldl (hartley_step ?d [16] [True] [4] [8]) (\<lambda>i. 0)
                (zip [[0], [1], [2]] [[0], [1], [2]]))\<rparr>)"
    by (simp add: ndim_def half ra pos3 itemsize_def)
  then have v: "map_sum id (\<lambda>res. (a_dtype res, a_shape res, buffer_at (a_data res) 8,
                        buffer_at (a_data res) 24))
     (genuine_hartley (\<lambda>i. 0) ?K ?A None 0 None 1) = Inr (f64, [4], 3, - 1)"
    by (simp add: hartley_step_def)
  have "complex_view (a_data ?tmp2) = Inr (\<lambda>i. 7)
      \<and> prepare_output (\<lambda>i. 0) (Real T_double) None (a_shape ?A) = Inr ?out
      \<and> real_view (a_data ?out) = Inr (\<lambda>i. 0)
      \<and> rev_iter_new (copy_shape ?out) (copy_strides ?out) [0] = Inr ?iout"
    by (simp add: prepare_output_def array_t_def itemsize_def rev_iter_new_def vec_back_def
        copy_shape_def copy_strides_def ndim_def half ra)
  from t [where K = ?K, THEN conjunct2, THEN conjunct1, rule_format, OF this]
  have m: "complex2hartley (\<lambda>i. 0) T_double ?A ?tmp2 None None = Inl IteratorCountMismatch"
    by (simp add: simple_iter_new_def copy_shape_def ndim_def)
  from v m show ?thesis by simp
qed

subsection \<open>A supplied output array\<close>

lemma DISPATCH_map_sum:
  "DISPATCH arr T1 T2 T3 (\<lambda>T. map_sum id g (f T)) = map_sum id g (DISPATCH arr T1 T2 T3 f)"
  by (simp add: DISPATCH_def)

lemma copy_strides_update_shape:
  "length s = length (a_shape out) \<Longrightarrow> copy_strides (out\<lparr>a_shape := s\<rparr>) = copy_strides out"
  by (simp add: copy_strides_def ndim_def)

lemma prepare_output_update_shape:
  "prepare_output mem t (Some (out\<lparr>a_shape := s\<rparr>)) dims
     = map_sum id (\<lambda>r. r\<lparr>a_shape := s\<rparr>) (prepare_output mem t (Some out) dims)"
  by (simp add: prepare_output_def)

lemma c2c_internal_out_shape:
  assumes "length s = length (a_shape out)"
  shows "c2c_internal mem K T arr axes' forward inorm (Some (out\<lparr>a_shape := s\<rparr>)) nthreads
     = map_sum id (\<lambda>r. r\<lparr>a_shape := s\<rparr>)
         (c2c_internal mem K T arr axes' forward inorm (Some out) nthreads)"
  using assms
  by (simp add: c2c_internal_def prepare_output_def copy_strides_update_shape Let_def
      split: sum.splits)

lemma c2c_sym_internal_out_shape:
  assumes "length s = length (a_shape out)"
  shows "c2c_sym_internal mem K T arr axes' forward inorm (Some (out\<lparr>a_shape := s\<rparr>)) nthreads
     = map_sum id (\<lambda>r. r\<lparr>a_shape := s\<rparr>)
         (c2c_sym_internal mem K T arr axes' forward inorm (Some out) nthreads)"
  using assms
  by (simp add: c2c_sym_internal_def prepare_output_def copy_strides_update_shape Let_def
      split: sum.splits)

lemma r2c_internal_out_shape:
  assumes "length s = length (a_shape out)"
  shows "r2c_internal mem K T arr axes' forward inorm (Some (out\<lparr>a_shape := s\<rparr>)) nthreads
     = map_sum id (\<lambda>r. r\<lparr>a_shape := s\<rparr>)
         (r2c_internal mem K T arr axes' forward inorm (Some out) nthreads)"
  using assms
  by (simp add: r2c_internal_def prepare_output_def copy_strides_update_shape Let_def
      split: sum.splits)

lemma c2r_internal_out_shape:
  assumes "length s = length (a_shape out)"
  shows "c2r_internal mem K T arr axes' lastsize forward inorm (Some (out\<lparr>a_shape := s\<rparr>)) nthreads
     = map_sum id (\<lambda>r. r\<lparr>a_shape := s\<rparr>)
         (c2r_internal mem K T arr axes' lastsize forward inorm (Some out) nthreads)"
  using assms
  by (simp add: c2r_internal_def prepare_output_def copy_strides_update_shape Let_def
      split: sum.splits)

lemma r2r_fftpack_internal_out_shape:
  assumes "length s = length (a_shape out)"
  shows "r2r_fftpack_internal mem K T arr axes' r2h forward inorm (Some (out\<lparr>a_shape := s\<rparr>)) nthreads
     = map_sum id (\<lambda>r. r\<lparr>a_shape := s\<rparr>)
         (r2r_fftpack_internal mem K T arr axes' r2h forward inorm (Some out) nthreads)"
  using assms
  by (simp add: r2r_fftpack_internal_def prepare_output_def copy_strides_update_shape Let_def
      split: sum.splits)

lemma separable_hartley_internal_out_shape:
  assumes "length s = length (a_shape out)"
  shows "separable_hartley_internal mem K T arr axes' inorm (Some (out\<lparr>a_shape := s\<rparr>)) nthreads
     = map_sum id (\<lambda>r. r\<lparr>a_shape := s\<rparr>)
         (separable_hartley_internal mem K T arr axes' inorm (Some out) nthreads)"
  using assms
  by (simp add: separable_hartley_internal_def prepare_output_def copy_strides_update_shape
      Let_def split: sum.splits)

lemma out_lengths_ignored:
  assumes "length s = length (a_shape out)"
  shows "c2c mem K arr axes' forward inorm (Some (out\<lparr>a_shape := s\<rparr>)) nthreads
           = map_sum id (\<lambda>r. r\<lparr>a_shape := s\<rparr>)
               (c2c mem K arr axes' forward inorm (Some out) nthreads)"
    and "r2c mem K arr axes' forward inorm (Some (out\<lparr>a_shape := s\<rparr>)) nthreads
           = map_sum id (\<lambda>r. r\<lparr>a_shape := s\<rparr>)
               (r2c mem K arr axes' forward inorm (Some out) nthreads)"
    and "c2r mem K arr axes' lastsize forward inorm (Some (out\<lparr>a_shape := s\<rparr>)) nthreads
           = map_sum id (\<lambda>r. r\<lparr>a_shape := s\<rparr>)
               (c2r mem K arr axes' lastsize forward inorm (Some out) nthreads)"
    and "r2r_fftpack mem K arr axes' r2h forward inorm (Some (out\<lparr>a_shape := s\<rparr>)) nthreads
           = map_sum id (\<lambda>r. r\<lparr>a_shape := s\<rparr>)
               (r2r_fftpack mem K arr axes' r2h forward inorm (Some out) nthreads)"
    and "separable_hartley mem K arr axes' inorm (Some (out\<lparr>a_shape := s\<rparr>)) nthreads
           = map_sum id (\<lambda>r. r\<lparr>a_shape := s\<rparr>)
               (separable_hartley mem K arr axes' inorm (Some out) nthreads)"
  using assms
  by (simp_all add: c2c_def r2c_def c2r_def r2r_fftpack_def separable_hartley_def
      c2c_internal_out_shape c2c_sym_internal_out_shape r2c_internal_out_shape
      c2r_internal_out_shape r2r_fftpack_internal_out_shape
      separable_hartley_internal_out_shape DISPATCH_map_sum)

lemma r2c_new_output:
  assumes "a_dtype arr = Real T" and "makeaxes arr axes' = Inr axes" and "axes \<noteq> []"
    and "r2c mem K arr axes' forward inorm None nthreads = Inr tmp"
  shows "\<exists>d. tmp = (array_t mem (Cplx T) (forward_half (a_shape arr) axes))\<lparr>a_data := CBuf d\<rparr>"
  using assms
  by (auto simp: r2c_def DISPATCH_real r2c_internal_def vec_back_def copy_shape_eq Let_def
        prepare_output_def forward_half_def split: sum.splits)

lemma genuine_hartley_supplied_output:
  assumes dt: "a_dtype arr = Real T" and ax: "makeaxes arr axes' = Inr axes" and ne: "axes \<noteq> []"
    and r: "r2c mem K arr axes' True inorm None nthreads = Inr tmp"
    and ot: "a_dtype out = Real T" and rv: "real_view (a_data out) = Inr aout"
  shows "(genuine_hartley mem K arr axes' inorm (Some out) nthreads = Inl IteratorCountMismatch)
           = (prod_list (forward_half (a_shape arr) axes)
                \<noteq> prod_list (forward_half (a_shape out) axes))"
    and "prod_list (forward_half (a_shape arr) axes) = prod_list (forward_half (a_shape out) axes)
         \<Longrightarrow> \<exists>d. genuine_hartley mem K arr axes' inorm (Some out) nthreads
                   = Inr (out\<lparr>a_data := RBuf d\<rparr>)"
proof -
  from r2c_new_output [OF dt ax ne r] obtain d where
    tmp: "tmp = (array_t mem (Cplx T) (forward_half (a_shape arr) axes))\<lparr>a_data := CBuf d\<rparr>"
    by blast
  have cv: "complex_view (a_data tmp) = Inr d" by (simp add: tmp)
  have po: "prepare_output mem (Real T) (Some out) (a_shape arr) = Inr out"
    using ot by (simp add: prepare_output_def)
  obtain iout where it: "rev_iter_new (copy_shape out) (copy_strides out) axes = Inr iout"
    using ne by (simp add: rev_iter_new_def vec_back_def)
  have g: "genuine_hartley mem K arr axes' inorm (Some out) nthreads
      = complex2hartley mem T arr tmp axes' (Some out)"
    using dt r by (simp add: genuine_hartley_def DISPATCH_real)
  have c1: "si_rem (simple_iter_new (copy_shape tmp) (copy_strides tmp))
      = prod_list (forward_half (a_shape arr) axes)"
    by (simp add: iterator_counts(1) copy_shape_eq tmp)
  have c2: "ri_rem iout = prod_list (forward_half (a_shape out) axes)"
    using iterator_counts(2) [OF it] by (simp add: copy_shape_eq)
  note e = complex2hartley_eq [OF ax cv po rv it]
  show "(genuine_hartley mem K arr axes' inorm (Some out) nthreads = Inl IteratorCountMismatch)
           = (prod_list (forward_half (a_shape arr) axes)
                \<noteq> prod_list (forward_half (a_shape out) axes))"
    by (simp add: g e c1 c2)
  show "\<exists>d. genuine_hartley mem K arr axes' inorm (Some out) nthreads
                   = Inr (out\<lparr>a_data := RBuf d\<rparr>)"
    if "prod_list (forward_half (a_shape arr) axes) = prod_list (forward_half (a_shape out) axes)"
    using that by (simp add: g e c1 c2) (rule exI, rule refl)
qed

text \<open>
  C7 (as the code has it). A supplied output array is checked for its element type:
  \<^verbatim>\<open>prepare_output\<close> gives the supplied array back when its element type is the
  required one, whatever its shape, and fails with the unexpected-data-type error
  otherwise. So whenever one of the six operations returns with a supplied output array,
  the element type of that array is the one the operation requires and the result is that
  array with new contents; and with a supplied array of another element type each of the
  six operations fails. The shape of the supplied array is not compared with the required
  shape. In \<^verbatim>\<open>c2c\<close>, \<^verbatim>\<open>r2c\<close>, \<^verbatim>\<open>c2r\<close>, \<^verbatim>\<open>r2r_fftpack\<close> and \<^verbatim>\<open>separable_hartley\<close>
  the lengths of its axes have no effect: with other lengths the outcome is the same, but
  for the shape of the returned array. \<^verbatim>\<open>genuine_hartley\<close> walks the supplied array:
  given an array of the required element type and of the rank of the input, it fails
  with the internal-consistency error exactly when the forward half of the supplied array
  and the forward half of the input differ in their number of elements, and returns the
  supplied array with new contents otherwise.
\<close>

theorem output_reused_by_type:
  "prepare_output mem t (Some out) dims
     = (if a_dtype out = t then Inr out else Inl UnexpectedOutputType)
   \<and> ((c2c mem K arr axes' forward inorm (Some out) nthreads = Inr res \<longrightarrow>
         (\<exists>T. (a_dtype arr = Real T \<or> a_dtype arr = Cplx T) \<and> a_dtype out = Cplx T)
         \<and> (\<exists>d. res = out\<lparr>a_data := d\<rparr>))
      \<and> (r2c mem K arr axes' forward inorm (Some out) nthreads = Inr res \<longrightarrow>
           (\<exists>T. a_dtype arr = Real T \<and> a_dtype out = Cplx T)
           \<and> (\<exists>d. res = out\<lparr>a_data := d\<rparr>))
      \<and> (c2r mem K arr axes' lastsize forward inorm (Some out) nthreads = Inr res \<longrightarrow>
           (\<exists>T. a_dtype arr = Cplx T \<and> a_dtype out = Real T)
           \<and> (\<exists>d. res = out\<lparr>a_data := d\<rparr>))
      \<and> (r2r_fftpack mem K arr axes' real2hermitian forward inorm (Some out) nthreads = Inr res
           \<longrightarrow>
           (\<exists>T. a_dtype arr = Real T \<and> a_dtype out = Real T)
           \<and> (\<exists>d. res = out\<lparr>a_data := d\<rparr>))
      \<and> (separable_hartley mem K arr axes' inorm (Some out) nthreads = Inr res \<longrightarrow>
           (\<exists>T. a_dtype arr = Real T \<and> a_dtype out = Real T)
           \<and> (\<exists>d. res = out\<lparr>a_data := d\<rparr>))
      \<and> (genuine_hartley mem K arr axes' inorm (Some out) nthreads = Inr res \<longrightarrow>
           (\<exists>T. a_dtype arr = Real T \<and> a_dtype out = Real T)
           \<and> (\<exists>d. res = out\<lparr>a_data := d\<rparr>)))
   \<and> ((\<not> (\<exists>T. (a_dtype arr = Real T \<or> a_dtype arr = Cplx T) \<and> a_dtype out = Cplx T) \<longrightarrow>
         (\<exists>e. c2c mem K arr axes' forward inorm (Some out) nthreads = Inl e))
      \<and> (\<not> (\<exists>T. a_dtype arr = Real T \<and> a_dtype out = Cplx T) \<longrightarrow>
           (\<exists>e. r2c mem K arr axes' forward inorm (Some out) nthreads = Inl e))
      \<and> (\<not> (\<exists>T. a_dtype arr = Cplx T \<and> a_dtype out = Real T) \<longrightarrow>
           (\<exists>e. c2r mem K arr axes' lastsize forward inorm (Some out) nthreads = Inl e))
      \<and> (\<not> (\<exists>T. a_dtype arr = Real T \<and> a_dtype out = Real T) \<longrightarrow>
           (\<exists>e. r2r_fftpack mem K arr axes' real2hermitian forward inorm (Some out) nthreads
                  = Inl e))
      \<and> (\<not> (\<exists>T. a_dtype arr = Real T \<and> a_dtype out = Real T) \<longrightarrow>
           (\<exists>e. separable_hartley mem K arr axes' inorm (Some out) nthreads = Inl e))
      \<and> (\<not> (\<exists>T. a_dtype arr = Real T \<and> a_dtype out = Real T) \<longrightarrow>
           (\<exists>e. genuine_hartley mem K arr axes' inorm (Some out) nthreads = Inl e)))
   \<and> (length s = length (a_shape out) \<longrightarrow>
        c2c mem K arr axes' forward inorm (Some (out\<lparr>a_shape := s\<rparr>)) nthreads
          = map_sum id (\<lambda>r. r\<lparr>a_shape := s\<rparr>)
              (c2c mem K arr axes' forward inorm (Some out) nthreads)
        \<and> r2c mem K arr axes' forward inorm (Some (out\<lparr>a_shape := s\<rparr>)) nthreads
          = map_sum id (\<lambda>r. r\<lparr>a_shape := s\<rparr>)
              (r2c mem K arr axes' forward inorm (Some out) nthreads)
        \<and> c2r mem K arr axes' lastsize forward inorm (Some (out\<lparr>a_shape := s\<rparr>)) nthreads
          = map_sum id (\<lambda>r. r\<lparr>a_shape := s\<rparr>)
              (c2r mem K arr axes' lastsize forward inorm (Some out) nthreads)
        \<and> r2r_fftpack mem K arr axes' real2hermitian forward inorm
              (Some (out\<lparr>a_shape := s\<rparr>)) nthreads
          = map_sum id (\<lambda>r. r\<lparr>a_shape := s\<rparr>)
              (r2r_fftpack mem K arr axes' real2hermitian forward inorm (Some out) nthreads)
        \<and> separable_hartley mem K arr axes' inorm (Some (out\<lparr>a_shape := s\<rparr>)) nthreads
          = map_sum id (\<lambda>r. r\<lparr>a_shape := s\<rparr>)
              (separable_hartley mem K arr axes' inorm (Some out) nthreads))
   \<and> (a_dtype arr = Real T1 \<and> makeaxes arr axes' = Inr axes \<and> axes \<noteq> []
        \<and> r2c mem K arr axes' True inorm None nthreads = Inr tmp
        \<and> a_dtype out = Real T1 \<and> real_view (a_data out) = Inr aout
        \<and> ndim out = ndim arr \<longrightarrow>
        (genuine_hartley mem K arr axes' inorm (Some out) nthreads = Inl IteratorCountMismatch)
          = (prod_list (forward_half (a_shape arr) axes)
               \<noteq> prod_list (forward_half (a_shape out) axes))
        \<and> (prod_list (forward_half (a_shape arr) axes)
             = prod_list (forward_half (a_shape out) axes) \<longrightarrow>
           (\<exists>d. genuine_hartley mem K arr axes' inorm (Some out) nthreads
                  = Inr (out\<lparr>a_data := RBuf d\<rparr>))))"
proof -
  have p: "prepare_output mem t (Some out) dims
     = (if a_dtype out = t then Inr out else Inl UnexpectedOutputType)"
    by (simp add: prepare_output_def)
  have a1: "c2c mem K arr axes' forward inorm (Some out) nthreads = Inr res \<longrightarrow>
        (\<exists>T. (a_dtype arr = Real T \<or> a_dtype arr = Cplx T) \<and> a_dtype out = Cplx T)
        \<and> (\<exists>d. res = out\<lparr>a_data := d\<rparr>)" for res
    unfolding c2c_def
    by (auto split: if_splits dest!: DISPATCH_real_Inr DISPATCH_cplx_Inr
        dest: c2c_internal_reuse c2c_sym_internal_reuse)
  have a2: "r2c mem K arr axes' forward inorm (Some out) nthreads = Inr res \<longrightarrow>
        (\<exists>T. a_dtype arr = Real T \<and> a_dtype out = Cplx T)
        \<and> (\<exists>d. res = out\<lparr>a_data := d\<rparr>)" for res
    unfolding r2c_def by (auto dest!: DISPATCH_real_Inr dest: r2c_internal_reuse)
  have a3: "c2r mem K arr axes' lastsize forward inorm (Some out) nthreads = Inr res \<longrightarrow>
        (\<exists>T. a_dtype arr = Cplx T \<and> a_dtype out = Real T)
        \<and> (\<exists>d. res = out\<lparr>a_data := d\<rparr>)" for res
    unfolding c2r_def by (auto dest!: DISPATCH_cplx_Inr dest: c2r_internal_reuse)
  have a4: "r2r_fftpack mem K arr axes' real2hermitian forward inorm (Some out) nthreads = Inr res
        \<longrightarrow>
        (\<exists>T. a_dtype arr = Real T \<and> a_dtype out = Real T)
        \<and> (\<exists>d. res = out\<lparr>a_data := d\<rparr>)" for res
    unfolding r2r_fftpack_def by (auto dest!: DISPATCH_real_Inr dest: r2r_fftpack_internal_reuse)
  have a5: "separable_hartley mem K arr axes' inorm (Some out) nthreads = Inr res \<longrightarrow>
        (\<exists>T. a_dtype arr = Real T \<and> a_dtype out = Real T)
        \<and> (\<exists>d. res = out\<lparr>a_data := d\<rparr>)" for res
    unfolding separable_hartley_def
    by (auto dest!: DISPATCH_real_Inr dest: separable_hartley_internal_reuse)
  have a6: "genuine_hartley mem K arr axes' inorm (Some out) nthreads = Inr res \<longrightarrow>
        (\<exists>T. a_dtype arr = Real T \<and> a_dtype out = Real T)
        \<and> (\<exists>d. res = out\<lparr>a_data := d\<rparr>)" for res
    unfolding genuine_hartley_def
    by (auto split: sum.splits dest!: DISPATCH_real_Inr dest: complex2hartley_reuse)
  have b1: "\<not> (\<exists>T. (a_dtype arr = Real T \<or> a_dtype arr = Cplx T) \<and> a_dtype out = Cplx T) \<longrightarrow>
         (\<exists>e. c2c mem K arr axes' forward inorm (Some out) nthreads = Inl e)"
    using a1 by (cases "c2c mem K arr axes' forward inorm (Some out) nthreads") blast+
  have b2: "\<not> (\<exists>T. a_dtype arr = Real T \<and> a_dtype out = Cplx T) \<longrightarrow>
           (\<exists>e. r2c mem K arr axes' forward inorm (Some out) nthreads = Inl e)"
    using a2 by (cases "r2c mem K arr axes' forward inorm (Some out) nthreads") blast+
  have b3: "\<not> (\<exists>T. a_dtype arr = Cplx T \<and> a_dtype out = Real T) \<longrightarrow>
           (\<exists>e. c2r mem K arr axes' lastsize forward inorm (Some out) nthreads = Inl e)"
    using a3 by (cases "c2r mem K arr axes' lastsize forward inorm (Some out) nthreads") blast+
  have b4: "\<not> (\<exists>T. a_dtype arr = Real T \<and> a_dtype out = Real T) \<longrightarrow>
           (\<exists>e. r2r_fftpack mem K arr axes' real2hermitian forward inorm (Some out) nthreads
                  = Inl e)"
    using a4
    by (cases "r2r_fftpack mem K arr axes' real2hermitian forward inorm (Some out) nthreads")
      blast+
  have b5: "\<not> (\<exists>T. a_dtype arr = Real T \<and> a_dtype out = Real T) \<longrightarrow>
           (\<exists>e. separable_hartley mem K arr axes' inorm (Some out) nthreads = Inl e)"
    using a5 by (cases "separable_hartley mem K arr axes' inorm (Some out) nthreads") blast+
  have b6: "\<not> (\<exists>T. a_dtype arr = Real T \<and> a_dtype out = Real T) \<longrightarrow>
           (\<exists>e. genuine_hartley mem K arr axes' inorm (Some out) nthreads = Inl e)"
    using a6 by (cases "genuine_hartley mem K arr axes' inorm (Some out) nthreads") blast+
  have c: "length s = length (a_shape out) \<longrightarrow>
        c2c mem K arr axes' forward inorm (Some (out\<lparr>a_shape := s\<rparr>)) nthreads
          = map_sum id (\<lambda>r. r\<lparr>a_shape := s\<rparr>)
              (c2c mem K arr axes' forward inorm (Some out) nthreads)
        \<and> r2c mem K arr axes' forward inorm (Some (out\<lparr>a_shape := s\<rparr>)) nthreads
          = map_sum id (\<lambda>r. r\<lparr>a_shape := s\<rparr>)
              (r2c mem K arr axes' forward inorm (Some out) nthreads)
        \<and> c2r mem K arr axes' lastsize forward inorm (Some (out\<lparr>a_shape := s\<rparr>)) nthreads
          = map_sum id (\<lambda>r. r\<lparr>a_shape := s\<rparr>)
              (c2r mem K arr axes' lastsize forward inorm (Some out) nthreads)
        \<and> r2r_fftpack mem K arr axes' real2hermitian forward inorm
              (Some (out\<lparr>a_shape := s\<rparr>)) nthreads
          = map_sum id (\<lambda>r. r\<lparr>a_shape := s\<rparr>)
              (r2r_fftpack mem K arr axes' real2hermitian forward inorm (Some out) nthreads)
        \<and> separable_hartley mem K arr axes' inorm (Some (out\<lparr>a_shape := s\<rparr>)) nthreads
          = map_sum id (\<lambda>r. r\<lparr>a_shape := s\<rparr>)
              (separable_hartley mem K arr axes' inorm (Some out) nthreads)"
  proof (rule impI)
    assume l: "length s = length (a_shape out)"
    note o = out_lengths_ignored [OF l]
    show "c2c mem K arr axes' forward inorm (Some (out\<lparr>a_shape := s\<rparr>)) nthreads
          = map_sum id (\<lambda>r. r\<lparr>a_shape := s\<rparr>)
              (c2c mem K arr axes' forward inorm (Some out) nthreads)
        \<and> r2c mem K arr axes' forward inorm (Some (out\<lparr>a_shape := s\<rparr>)) nthreads
          = map_sum id (\<lambda>r. r\<lparr>a_shape := s\<rparr>)
              (r2c mem K arr axes' forward inorm (Some out) nthreads)
        \<and> c2r mem K arr axes' lastsize forward inorm (Some (out\<lparr>a_shape := s\<rparr>)) nthreads
          = map_sum id (\<lambda>r. r\<lparr>a_shape := s\<rparr>)
              (c2r mem K arr axes' lastsize forward inorm (Some out) nthreads)
        \<and> r2r_fftpack mem K arr axes' real2hermitian forward inorm
              (Some (out\<lparr>a_shape := s\<rparr>)) nthreads
          = map_sum id (\<lambda>r. r\<lparr>a_shape := s\<rparr>)
              (r2r_fftpack mem K arr axes' real2hermitian forward inorm (Some out) nthreads)
        \<and> separable_hartley mem K arr axes' inorm (Some (out\<lparr>a_shape := s\<rparr>)) nthreads
          = map_sum id (\<lambda>r. r\<lparr>a_shape := s\<rparr>)
              (separable_hartley mem K arr axes' inorm (Some out) nthreads)"
      by (rule conjI [OF o(1) conjI [OF o(2) conjI [OF o(3) conjI [OF o(4) o(5)]]]])
  qed
  have d: "a_dtype arr = Real T1 \<and> makeaxes arr axes' = Inr axes \<and> axes \<noteq> []
        \<and> r2c mem K arr axes' True inorm None nthreads = Inr tmp
        \<and> a_dtype out = Real T1 \<and> real_view (a_data out) = Inr aout
        \<and> ndim out = ndim arr \<longrightarrow>
        (genuine_hartley mem K arr axes' inorm (Some out) nthreads = Inl IteratorCountMismatch)
          = (prod_list (forward_half (a_shape arr) axes)
               \<noteq> prod_list (forward_half (a_shape out) axes))
        \<and> (prod_list (forward_half (a_shape arr) axes)
             = prod_list (forward_half (a_shape out) axes) \<longrightarrow>
           (\<exists>d. genuine_hartley mem K arr axes' inorm (Some out) nthreads
                  = Inr (out\<lparr>a_data := RBuf d\<rparr>)))"
  proof (rule impI, (erule conjE)+)
    assume h: "a_dtype arr = Real T1" "makeaxes arr axes' = Inr axes" "axes \<noteq> []"
      "r2c mem K arr axes' True inorm None nthreads = Inr tmp"
      "a_dtype out = Real T1" "real_view (a_data out) = Inr aout"
    note g = genuine_hartley_supplied_output [OF h]
    show "(genuine_hartley mem K arr axes' inorm (Some out) nthreads = Inl IteratorCountMismatch)
          = (prod_list (forward_half (a_shape arr) axes)
               \<noteq> prod_list (forward_half (a_shape out) axes))
        \<and> (prod_list (forward_half (a_shape arr) axes)
             = prod_list (forward_half (a_shape out) axes) \<longrightarrow>
           (\<exists>d. genuine_hartley mem K arr axes' inorm (Some out) nthreads
                  = Inr (out\<lparr>a_data := RBuf d\<rparr>)))"
      by (rule conjI [OF g(1) impI [OF g(2)]])
  qed
  show ?thesis
    by (rule conjI [OF p conjI [OF
          conjI [OF a1 conjI [OF a2 conjI [OF a3 conjI [OF a4 conjI [OF a5 a6]]]]]
          conjI [OF
            conjI [OF b1 conjI [OF b2 conjI [OF b3 conjI [OF b4 conjI [OF b5 b6]]]]]
            conjI [OF c d]]]])
qed

theorem output_reused_by_type_witness:
  "genuine_hartley (\<lambda>i. 0) (example_kernels (\<lambda>i. 1) (\<lambda>i. 0))
      \<lparr>a_dtype = f64, a_shape = [4], a_strides = [8], a_data = RBuf (\<lambda>i. 0)\<rparr>
      None 0
      (Some \<lparr>a_dtype = f64, a_shape = [7], a_strides = [8], a_data = RBuf (\<lambda>i. 0)\<rparr>) 1
     = Inl IteratorCountMismatch
   \<and> map_sum id a_shape
      (genuine_hartley (\<lambda>i. 0) (example_kernels (\<lambda>i. 1) (\<lambda>i. 0))
         \<lparr>a_dtype = f64, a_shape = [4], a_strides = [8], a_data = RBuf (\<lambda>i. 0)\<rparr>
         None 0
         (Some \<lparr>a_dtype = f64, a_shape = [5], a_strides = [8], a_data = RBuf (\<lambda>i. 0)\<rparr>) 1)
     = Inr [5]
   \<and> prepare_output (\<lambda>i. 0) c64
      (Some \<lparr>a_dtype = c128, a_shape = [2, 3], a_strides = [48, 16], a_data = CBuf (\<lambda>i. 0)\<rparr>)
      [2, 3] = Inl UnexpectedOutputType"
proof -
  let ?A = "\<lparr>a_dtype = f64, a_shape = [4], a_strides = [8], a_data = RBuf (\<lambda>i. 0)\<rparr>"
  let ?K = "example_kernels (\<lambda>i. 1) (\<lambda>i. 0)"
  let ?O7 = "\<lparr>a_dtype = f64, a_shape = [7], a_strides = [8], a_data = RBuf (\<lambda>i. 0)\<rparr>"
  let ?O5 = "\<lparr>a_dtype = f64, a_shape = [5], a_strides = [8], a_data = RBuf (\<lambda>i. 0)\<rparr>"
  let ?C = "\<lparr>a_dtype = c128, a_shape = [2, 3], a_strides = [48, 16], a_data = CBuf (\<lambda>i. 0)\<rparr>"
  let ?tmp = "\<lparr>a_dtype = c128, a_shape = [3], a_strides = [16], a_data = CBuf (\<lambda>i. 1)\<rparr>"
  have r: "r2c (\<lambda>i. 0) ?K ?A None True 0 None 1 = Inr ?tmp"
    by (simp add: eval_defs upt_rec)
  have h7: "a_dtype ?A = Real T_double \<and> makeaxes ?A None = Inr [0] \<and> [0::nat] \<noteq> []
      \<and> r2c (\<lambda>i. 0) ?K ?A None True 0 None 1 = Inr ?tmp
      \<and> a_dtype ?O7 = Real T_double \<and> real_view (a_data ?O7) = Inr (\<lambda>i. 0)
      \<and> ndim ?O7 = ndim ?A"
    using r by (simp add: makeaxes_def ndim_def)
  have h5: "a_dtype ?A = Real T_double \<and> makeaxes ?A None = Inr [0] \<and> [0::nat] \<noteq> []
      \<and> r2c (\<lambda>i. 0) ?K ?A None True 0 None 1 = Inr ?tmp
      \<and> a_dtype ?O5 = Real T_double \<and> real_view (a_data ?O5) = Inr (\<lambda>i. 0)
      \<and> ndim ?O5 = ndim ?A"
    using r by (simp add: makeaxes_def ndim_def)
  from output_reused_by_type [where mem = "\<lambda>i. 0" and K = ?K and arr = ?A and axes' = None
      and inorm = 0 and out = ?O7 and nthreads = 1 and ?T1.0 = T_double and axes = "[0]"
      and tmp = ?tmp and aout = "\<lambda>i. 0",
      THEN conjunct2, THEN conjunct2, THEN conjunct2, THEN conjunct2, rule_format, OF h7]
  have w7: "genuine_hartley (\<lambda>i. 0) ?K ?A None 0 (Some ?O7) 1 = Inl IteratorCountMismatch"
    by (simp add: forward_half_def)
  from output_reused_by_type [where mem = "\<lambda>i. 0" and K = ?K and arr = ?A and axes' = None
      and inorm = 0 and out = ?O5 and nthreads = 1 and ?T1.0 = T_double and axes = "[0]"
      and tmp = ?tmp and aout = "\<lambda>i. 0",
      THEN conjunct2, THEN conjunct2, THEN conjunct2, THEN conjunct2, rule_format, OF h5]
  have w5: "map_sum id a_shape (genuine_hartley (\<lambda>i. 0) ?K ?A None 0 (Some ?O5) 1) = Inr [5]"
    by (auto simp: forward_half_def)
  from output_reused_by_type [where mem = "\<lambda>i. 0" and t = c64 and out = ?C
      and dims = "[2, 3]", THEN conjunct1]
  have wp: "prepare_output (\<lambda>i. 0) c64 (Some ?C) [2, 3] = Inl UnexpectedOutputType"
    by simp
  from w7 w5 wp show ?thesis by simp
qed

text \<open>
  C7 as stated asks for an error on a shape mismatch as well. \<^verbatim>\<open>r2c\<close> of a
  \<^verbatim>\<open>float64\<close> array of length 4 requires an output of shape \<open>[3]\<close>; given a
  \<^verbatim>\<open>complex128\<close> array of shape \<open>[7]\<close>, it raises nothing and returns that array.
\<close>

theorem output_shape_unchecked_counterexample:
  "prepare_output (\<lambda>i. 0) c128
      (Some \<lparr>a_dtype = c128, a_shape = [7], a_strides = [16], a_data = CBuf (\<lambda>i. 0)\<rparr>) [3]
     = Inr \<lparr>a_dtype = c128, a_shape = [7], a_strides = [16], a_data = CBuf (\<lambda>i. 0)\<rparr>
   \<and> r2c (\<lambda>i. 0) (example_kernels (\<lambda>i. 1) (\<lambda>i. 0))
      \<lparr>a_dtype = f64, a_shape = [4], a_strides = [8], a_data = RBuf (\<lambda>i. 0)\<rparr>
      None True 0
      (Some \<lparr>a_dtype = c128, a_shape = [7], a_strides = [16], a_data = CBuf (\<lambda>i. 0)\<rparr>) 1
     = Inr \<lparr>a_dtype = c128, a_shape = [7], a_strides = [16], a_data = CBuf (\<lambda>i. 1)\<rparr>
   \<and> r2c (\<lambda>i. 0) (example_kernels (\<lambda>i. 1) (\<lambda>i. 0))
      \<lparr>a_dtype = f64, a_shape = [4], a_strides = [8], a_data = RBuf (\<lambda>i. 0)\<rparr>
      None True 0 None 1
     = Inr \<lparr>a_dtype = c128, a_shape = [3], a_strides = [16], a_data = CBuf (\<lambda>i. 1)\<rparr>"
  by (simp add: eval_defs upt_rec)

end
